theory Spec2Isabelle
  imports Complex_Main "HOL-Library.Monad_Syntax"
begin

section \<open>JavaScript values\<close>

text \<open>
  The server receives its inputs as properties of a parsed JSON (or URL-encoded) body, so a
  field such as \<open>name\<close> or \<open>juryName\<close> may hold any JavaScript value, not only a string.
  \<open>JUndefined\<close> is the value of an absent property. An object or an array is represented by
  its reference \<open>JObj r\<close>: strict equality on objects compares references.

  Numbers are kept abstract (the type parameter \<open>'n\<close>): the arithmetic the server performs
  on them is written with \<open>0\<close>, \<open>1\<close>, \<open>+\<close> and \<open>/\<close> of the type \<open>'n\<close> , and the built-in
  operations the server relies on are collected in the record \<open>builtins\<close>, which every
  function of the model takes as its first argument:
  \<^item> \<open>num_falsy\<close>: the number is \<open>+0\<close>, \<open>-0\<close> or NaN;
  \<^item> \<open>num_strict_eq\<close> and \<open>num_same_value_zero\<close>: \<open>===\<close> and SameValueZero on numbers;
  \<^item> \<open>num_toString\<close>: ToString of a number;
  \<^item> \<open>obj_toString_throws\<close>: ToString of the object throws a TypeError (as for
    \<^verbatim>\<open>{"toString": 1}\<close>, whose \<open>toString\<close> is not callable and whose \<open>valueOf\<close> returns the
    object); \<open>obj_toString\<close>: the string it returns otherwise;
  \<^item> \<open>parseFloat_string\<close>: the number that \<open>parseFloat\<close> reads at the start of a string, NaN
    when there is none.
\<close>

datatype 'n jsval =
    JUndefined
  | JNull
  | JBool bool
  | JNum 'n
  | JStr string
  | JObj nat

record 'n builtins =
  num_falsy :: "'n \<Rightarrow> bool"
  num_strict_eq :: "'n \<Rightarrow> 'n \<Rightarrow> bool"
  num_same_value_zero :: "'n \<Rightarrow> 'n \<Rightarrow> bool"
  num_toString :: "'n \<Rightarrow> string"
  obj_toString :: "nat \<Rightarrow> string"
  obj_toString_throws :: "nat \<Rightarrow> bool"
  parseFloat_string :: "string \<Rightarrow> 'n"

text \<open>\<open>!v\<close> is \<open>\<not> truthy N v\<close>: ToBoolean is false on undefined, null, false, the empty
  string, and the numbers \<open>+0\<close>, \<open>-0\<close> and NaN (\<open>num_falsy\<close>).\<close>

fun truthy :: "'n builtins \<Rightarrow> 'n jsval \<Rightarrow> bool" where
  "truthy N JUndefined = False"
| "truthy N JNull = False"
| "truthy N (JBool b) = b"
| "truthy N (JNum x) = (\<not> num_falsy N x)"
| "truthy N (JStr s) = (s \<noteq> [])"
| "truthy N (JObj r) = True"

text \<open>\<open>a === b\<close>.\<close>

fun strict_eq :: "'n builtins \<Rightarrow> 'n jsval \<Rightarrow> 'n jsval \<Rightarrow> bool" where
  "strict_eq N JUndefined b = (b = JUndefined)"
| "strict_eq N JNull b = (b = JNull)"
| "strict_eq N (JBool a) b = (b = JBool a)"
| "strict_eq N (JNum x) b = (case b of JNum y \<Rightarrow> num_strict_eq N x y | _ \<Rightarrow> False)"
| "strict_eq N (JStr s) b = (b = JStr s)"
| "strict_eq N (JObj r) b = (b = JObj r)"

text \<open>SameValueZero, the comparison of \<open>Array.prototype.includes\<close>: it differs from
  \<open>===\<close> on numbers only (NaN is the same value as NaN).\<close>

fun same_value_zero :: "'n builtins \<Rightarrow> 'n jsval \<Rightarrow> 'n jsval \<Rightarrow> bool" where
  "same_value_zero N JUndefined b = (b = JUndefined)"
| "same_value_zero N JNull b = (b = JNull)"
| "same_value_zero N (JBool a) b = (b = JBool a)"
| "same_value_zero N (JNum x) b = (case b of JNum y \<Rightarrow> num_same_value_zero N x y | _ \<Rightarrow> False)"
| "same_value_zero N (JStr s) b = (b = JStr s)"
| "same_value_zero N (JObj r) b = (b = JObj r)"

definition includes' :: "'n builtins \<Rightarrow> 'n jsval list \<Rightarrow> 'n jsval \<Rightarrow> bool" where
  "includes' N xs v = list_ex (\<lambda>x. same_value_zero N x v) xs"

text \<open>
  ToString, as applied by a template literal and by \<open>parseFloat\<close> to its argument. On an
  object it may throw a TypeError: \<open>toString_throws\<close> says when, and \<open>toString\<close> is the
  string returned when it does not.
\<close>

fun toString_throws :: "'n builtins \<Rightarrow> 'n jsval \<Rightarrow> bool" where
  "toString_throws N (JObj r) = obj_toString_throws N r"
| "toString_throws N _ = False"

fun toString :: "'n builtins \<Rightarrow> 'n jsval \<Rightarrow> string" where
  "toString N JUndefined = ''undefined''"
| "toString N JNull = ''null''"
| "toString N (JBool b) = (if b then ''true'' else ''false'')"
| "toString N (JNum x) = num_toString N x"
| "toString N (JStr s) = s"
| "toString N (JObj r) = obj_toString N r"

text \<open>
  \<open>parseFloat(v)\<close> converts \<open>v\<close> to a string and reads a number at its start. \<open>None\<close> is
  the TypeError thrown by the conversion.
\<close>

definition parseFloat :: "'n builtins \<Rightarrow> 'n jsval \<Rightarrow> 'n option" where
  "parseFloat N v =
     (if toString_throws N v then None else Some (parseFloat_string N (toString N v)))"

section \<open>Data model\<close>

record 'n session =
  id' :: string
  name :: "'n jsval"
  campus :: string
  juries :: "'n jsval list"
  students :: "'n jsval list"

text \<open>
  A submission, an accumulator of \<open>aggregates\<close> and a row of \<open>aggregated\<close> are JavaScript
  objects sharing property names. The shared properties are declared once, in parent
  records, so that every property keeps the name it has in the source.
\<close>

record 'n keyed =
  sessionId :: "'n jsval"
  studentName :: "'n jsval"

record 'n scored = "'n keyed" +
  introductionTeam :: 'n
  projectInspiration :: 'n
  technologyArchitecture :: 'n
  algorithmsCode :: 'n
  processCollaboration :: 'n
  challengesFaced :: 'n
  technicalLearnings :: 'n
  audibles :: 'n
  clarity :: 'n
  fewFillerWords :: 'n
  stagePosition :: 'n
  confidentPosture :: 'n
  professionalAttire :: 'n
  timeManagement :: 'n
  energy :: 'n
  audienceInteraction :: 'n
  projectFunctionality :: 'n
  questionsAnswers :: 'n

record 'n submission = "'n scored" +
  juryName :: "'n jsval"
  studentComments :: "'n jsval"

record 'n aggregate = "'n scored" +
  count :: nat

record 'n averages = "'n keyed" +
  introductionTeamAvg :: 'n
  projectInspirationAvg :: 'n
  technologyArchitectureAvg :: 'n
  algorithmsCodeAvg :: 'n
  processCollaborationAvg :: 'n
  challengesFacedAvg :: 'n
  technicalLearningsAvg :: 'n
  audiblesAvg :: 'n
  clarityAvg :: 'n
  fewFillerWordsAvg :: 'n
  stagePositionAvg :: 'n
  confidentPostureAvg :: 'n
  professionalAttireAvg :: 'n
  timeManagementAvg :: 'n
  energyAvg :: 'n
  audienceInteractionAvg :: 'n
  projectFunctionalityAvg :: 'n
  questionsAnswersAvg :: 'n

record 'n db =
  sessions :: "'n session list"
  submissions :: "'n submission list"

text \<open>
  The server's state: \<open>dbData\<close> is the in-memory document, \<open>db_json\<close> the document last
  handed to \<open>fs.writeFileSync\<close> by \<open>saveDatabase\<close> (the JSON serialisation is not modelled).
\<close>

record 'n server =
  dbData :: "'n db"
  db_json :: "'n db"

definition saveDatabase :: "'n server \<Rightarrow> 'n server" where
  "saveDatabase st = st\<lparr>db_json := dbData st\<rparr>"

section \<open>Requests and responses\<close>

text \<open>
  \<open>session_user\<close> is \<open>req.session.user.campus\<close>, or \<open>None\<close> when \<open>req.session.user\<close> is not
  set (the login route stores the user name as the campus); \<open>params_id\<close> is
  \<open>req.params.id\<close>; \<open>body\<close> maps a property name of \<open>req.body\<close> to its value, \<open>JUndefined\<close>
  for an absent property.
\<close>

record 'n request =
  session_user :: "string option"
  params_id :: string
  body :: "string \<Rightarrow> 'n jsval"

datatype 'n payload =
    Error string
  | Message string
  | MessageSession string "'n session"
  | SessionList "'n session list"
  | Results "'n submission list" "'n averages list" "'n session list"
  | InternalServerError

type_synonym 'n response = "nat \<times> 'n payload"

definition unauthorized :: "'n response" where
  "unauthorized = (401, Error ''Unauthorized'')"

definition forbidden :: "'n response" where
  "forbidden = (403, Error ''Forbidden - Session belongs to another campus.'')"

definition not_found :: "'n response" where
  "not_found = (404, Error ''Session not found.'')"

text \<open>
  No route catches an exception. When a handler throws, Express passes the error to its
  default error handler, which answers 500 with a page that describes the error; the
  statements of the handler after the throw are not run.
\<close>

definition internal_server_error :: "'n response" where
  "internal_server_error = (500, InternalServerError)"

section \<open>Array helpers\<close>

text \<open>\<open>Array.prototype.findIndex\<close>; \<open>None\<close> stands for \<open>-1\<close>.\<close>

fun findIndex :: "('a \<Rightarrow> bool) \<Rightarrow> 'a list \<Rightarrow> nat option" where
  "findIndex P [] = None"
| "findIndex P (x # xs) = (if P x then Some 0 else map_option Suc (findIndex P xs))"

text \<open>\<open>xs.splice(i, 1)\<close>.\<close>

definition splice1 :: "nat \<Rightarrow> 'a list \<Rightarrow> 'a list" where
  "splice1 i xs = take i xs @ drop (Suc i) xs"

text \<open>
  \<open>Array.prototype.find\<close> (\<open>List.find\<close>) returns the first matching element itself, not a
  copy: an assignment to a property of the object found changes that element of the
  array. \<open>update_first P f xs\<close> is the array after such an assignment.
\<close>

fun update_first :: "('a \<Rightarrow> bool) \<Rightarrow> ('a \<Rightarrow> 'a) \<Rightarrow> 'a list \<Rightarrow> 'a list" where
  "update_first P f [] = []"
| "update_first P f (x # xs) = (if P x then f x # xs else x # update_first P f xs)"

section \<open>Sessions and submissions routes\<close>

text \<open>
  Every route below is guarded by the middleware \<open>isAuthenticated\<close>, which answers 401
  when \<open>req.session.user\<close> is not set and otherwise runs the handler.
\<close>

definition isAuthenticated ::
  "'n request \<Rightarrow> (string \<Rightarrow> 'n response \<times> 'n server) \<Rightarrow> 'n server \<Rightarrow> 'n response \<times> 'n server" where
  "isAuthenticated req next st =
     (case session_user req of
        Some userCampus \<Rightarrow> next userCampus
      | None \<Rightarrow> (unauthorized, st))"

text \<open>\<open>GET /api/sessions\<close>\<close>

definition get_sessions :: "'n builtins \<Rightarrow> 'n request \<Rightarrow> 'n server \<Rightarrow> 'n response \<times> 'n server" where
  "get_sessions N req st = isAuthenticated req (\<lambda>userCampus.
     ((200, SessionList (filter (\<lambda>s. campus s = userCampus) (sessions (dbData st)))), st)) st"

text \<open>\<open>POST /api/sessions\<close>; \<open>uuid\<close> is the value returned by \<open>uuidv4()\<close>.\<close>

definition post_sessions ::
  "'n builtins \<Rightarrow> string \<Rightarrow> 'n request \<Rightarrow> 'n server \<Rightarrow> 'n response \<times> 'n server" where
  "post_sessions N uuid req st = isAuthenticated req (\<lambda>userCampus.
     if \<not> truthy N (body req ''name'') then ((400, Error ''Session name is required.''), st)
     else
       let newSession = \<lparr>id' = uuid, name = body req ''name'', campus = userCampus,
                          juries = [], students = []\<rparr>;
           db' = (dbData st)\<lparr>sessions := sessions (dbData st) @ [newSession]\<rparr>
       in ((200, MessageSession ''Session created successfully!'' newSession),
           saveDatabase (st\<lparr>dbData := db'\<rparr>))) st"

text \<open>\<open>DELETE /api/sessions/:id\<close>\<close>

definition delete_session :: "'n builtins \<Rightarrow> 'n request \<Rightarrow> 'n server \<Rightarrow> 'n response \<times> 'n server" where
  "delete_session N req st = isAuthenticated req (\<lambda>userCampus.
     case findIndex (\<lambda>s. id' s = params_id req) (sessions (dbData st)) of
       None \<Rightarrow> (not_found, st)
     | Some sessionIndex \<Rightarrow>
         if campus (sessions (dbData st) ! sessionIndex) \<noteq> userCampus then (forbidden, st)
         else
           let db' = (dbData st)
                 \<lparr>sessions := splice1 sessionIndex (sessions (dbData st)),
                  submissions := filter (\<lambda>sub. \<not> strict_eq N (sessionId sub) (JStr (params_id req)))
                                   (submissions (dbData st))\<rparr>
           in ((200, Message ''Session deleted successfully.''),
               saveDatabase (st\<lparr>dbData := db'\<rparr>))) st"

section \<open>Juries and students routes\<close>

text \<open>
  The four routes repeat the same lines after reading the name: the session is looked up
  by \<open>req.params.id\<close> (404 when there is none), its campus is compared with the caller's
  (403 when they differ), one list of the session found is changed in place (\<open>f\<close>), the
  document is written, and the session is returned with the message \<open>msg\<close>. These lines
  are \<open>change_session\<close>; each route below adds what is its own.
\<close>

definition change_session ::
  "string \<Rightarrow> ('n session \<Rightarrow> 'n session) \<Rightarrow> string \<Rightarrow> string \<Rightarrow> 'n server \<Rightarrow> 'n response \<times> 'n server" where
  "change_session sid f msg userCampus st =
     (case find (\<lambda>s. id' s = sid) (sessions (dbData st)) of
        None \<Rightarrow> (not_found, st)
      | Some sessionFound \<Rightarrow>
          if campus sessionFound \<noteq> userCampus then (forbidden, st)
          else
            let db' = (dbData st)
                  \<lparr>sessions := update_first (\<lambda>s. id' s = sid) f (sessions (dbData st))\<rparr>
            in ((200, MessageSession msg (f sessionFound)), saveDatabase (st\<lparr>dbData := db'\<rparr>)))"

text \<open>\<open>POST /api/sessions/:id/juries\<close>\<close>

definition post_juries :: "'n builtins \<Rightarrow> 'n request \<Rightarrow> 'n server \<Rightarrow> 'n response \<times> 'n server" where
  "post_juries N req st = isAuthenticated req (\<lambda>userCampus.
     if \<not> truthy N (body req ''juryName'') then ((400, Error ''Jury name is required.''), st)
     else change_session (params_id req)
            (\<lambda>s. s\<lparr>juries := juries s @ [body req ''juryName'']\<rparr>)
            ''Jury added successfully.'' userCampus st) st"

text \<open>\<open>DELETE /api/sessions/:id/juries\<close>\<close>

definition delete_juries :: "'n builtins \<Rightarrow> 'n request \<Rightarrow> 'n server \<Rightarrow> 'n response \<times> 'n server" where
  "delete_juries N req st = isAuthenticated req (\<lambda>userCampus.
     change_session (params_id req)
       (\<lambda>s. s\<lparr>juries := filter (\<lambda>j. \<not> strict_eq N j (body req ''juryName'')) (juries s)\<rparr>)
       ''Jury deleted successfully.'' userCampus st) st"

text \<open>\<open>POST /api/sessions/:id/students\<close>\<close>

definition post_students :: "'n builtins \<Rightarrow> 'n request \<Rightarrow> 'n server \<Rightarrow> 'n response \<times> 'n server" where
  "post_students N req st = isAuthenticated req (\<lambda>userCampus.
     if \<not> truthy N (body req ''studentName'') then ((400, Error ''Student name is required.''), st)
     else change_session (params_id req)
            (\<lambda>s. s\<lparr>students := students s @ [body req ''studentName'']\<rparr>)
            ''Student added successfully.'' userCampus st) st"

text \<open>\<open>DELETE /api/sessions/:id/students\<close>\<close>

definition delete_students :: "'n builtins \<Rightarrow> 'n request \<Rightarrow> 'n server \<Rightarrow> 'n response \<times> 'n server" where
  "delete_students N req st = isAuthenticated req (\<lambda>userCampus.
     change_session (params_id req)
       (\<lambda>s. s\<lparr>students := filter (\<lambda>t. \<not> strict_eq N t (body req ''studentName'')) (students s)\<rparr>)
       ''Student deleted successfully.'' userCampus st) st"

section \<open>Evaluations and results routes\<close>

text \<open>
  The object \<open>newSubmission\<close> built by \<open>POST /api/submitEvaluation\<close>. Its properties are
  evaluated in order; the first \<open>parseFloat\<close> that throws ends the evaluation (\<open>None\<close>).
\<close>

definition newSubmission :: "'n builtins \<Rightarrow> 'n request \<Rightarrow> 'n submission option" where
  "newSubmission N req =
     do {
       introductionTeam' \<leftarrow> parseFloat N (body req ''introductionTeam'');
       projectInspiration' \<leftarrow> parseFloat N (body req ''projectInspiration'');
       technologyArchitecture' \<leftarrow> parseFloat N (body req ''technologyArchitecture'');
       algorithmsCode' \<leftarrow> parseFloat N (body req ''algorithmsCode'');
       processCollaboration' \<leftarrow> parseFloat N (body req ''processCollaboration'');
       challengesFaced' \<leftarrow> parseFloat N (body req ''challengesFaced'');
       technicalLearnings' \<leftarrow> parseFloat N (body req ''technicalLearnings'');
       audibles' \<leftarrow> parseFloat N (body req ''audibles'');
       clarity' \<leftarrow> parseFloat N (body req ''clarity'');
       fewFillerWords' \<leftarrow> parseFloat N (body req ''fewFillerWords'');
       stagePosition' \<leftarrow> parseFloat N (body req ''stagePosition'');
       confidentPosture' \<leftarrow> parseFloat N (body req ''confidentPosture'');
       professionalAttire' \<leftarrow> parseFloat N (body req ''professionalAttire'');
       timeManagement' \<leftarrow> parseFloat N (body req ''timeManagement'');
       energy' \<leftarrow> parseFloat N (body req ''energy'');
       audienceInteraction' \<leftarrow> parseFloat N (body req ''audienceInteraction'');
       projectFunctionality' \<leftarrow> parseFloat N (body req ''projectFunctionality'');
       questionsAnswers' \<leftarrow> parseFloat N (body req ''questionsAnswers'');
       Some
         \<lparr>sessionId = body req ''sessionId'',
          studentName = body req ''studentName'',
          introductionTeam = introductionTeam',
          projectInspiration = projectInspiration',
          technologyArchitecture = technologyArchitecture',
          algorithmsCode = algorithmsCode',
          processCollaboration = processCollaboration',
          challengesFaced = challengesFaced',
          technicalLearnings = technicalLearnings',
          audibles = audibles',
          clarity = clarity',
          fewFillerWords = fewFillerWords',
          stagePosition = stagePosition',
          confidentPosture = confidentPosture',
          professionalAttire = professionalAttire',
          timeManagement = timeManagement',
          energy = energy',
          audienceInteraction = audienceInteraction',
          projectFunctionality = projectFunctionality',
          questionsAnswers = questionsAnswers',
          juryName = body req ''juryName'',
          studentComments = (if truthy N (body req ''studentComments'')
                             then body req ''studentComments'' else JStr [])\<rparr>
     }"

text \<open>\<open>POST /api/submitEvaluation\<close>\<close>

definition post_submitEvaluation ::
  "'n builtins \<Rightarrow> 'n request \<Rightarrow> 'n server \<Rightarrow> 'n response \<times> 'n server" where
  "post_submitEvaluation N req st = isAuthenticated req (\<lambda>userCampus.
     case find (\<lambda>s. strict_eq N (JStr (id' s)) (body req ''sessionId'')) (sessions (dbData st)) of
       None \<Rightarrow> ((400, Error ''Session does not exist.''), st)
     | Some sessionFound \<Rightarrow>
         if campus sessionFound \<noteq> userCampus then (forbidden, st)
         else if \<not> includes' N (juries sessionFound) (body req ''juryName'')
           then ((400, Error ''Jury does not exist in this session.''), st)
         else if \<not> includes' N (students sessionFound) (body req ''studentName'')
           then ((400, Error ''Student does not exist in this session.''), st)
         else
           (case newSubmission N req of
              None \<Rightarrow> (internal_server_error, st)
            | Some submission \<Rightarrow>
                let db' = (dbData st)\<lparr>submissions := submissions (dbData st) @ [submission]\<rparr>
                in ((200, Message ''Evaluation submitted successfully!''),
                    saveDatabase (st\<lparr>dbData := db'\<rparr>)))) st"

subsection \<open>Aggregation\<close>

definition campusSessions :: "'n server \<Rightarrow> string \<Rightarrow> 'n session list" where
  "campusSessions st userCampus = filter (\<lambda>s. campus s = userCampus) (sessions (dbData st))"

definition campusSessionIds :: "'n server \<Rightarrow> string \<Rightarrow> 'n jsval list" where
  "campusSessionIds st userCampus = map (\<lambda>s. JStr (id' s)) (campusSessions st userCampus)"

definition rawSubmissions :: "'n builtins \<Rightarrow> 'n server \<Rightarrow> string \<Rightarrow> 'n submission list" where
  "rawSubmissions N st userCampus =
     filter (\<lambda>sub. includes' N (campusSessionIds st userCampus) (sessionId sub))
       (submissions (dbData st))"

text \<open>The template literal \<^verbatim>\<open>`${sub.sessionId}_${sub.studentName}`\<close>.\<close>

definition group_key :: "'n builtins \<Rightarrow> 'n submission \<Rightarrow> string" where
  "group_key N sub = toString N (sessionId sub) @ ''_'' @ toString N (studentName sub)"

text \<open>
  The object \<open>aggregates\<close> is a plain object, created by \<open>{}\<close>. Its own properties are an
  association list in insertion order, which is the order in which \<open>Object.values\<close>
  enumerates string keys that are not array indices (a key always contains an
  underscore). \<open>assign k v\<close> is \<open>aggregates[k] = v\<close>: a new key goes to the end, an existing
  key keeps its place.

  The lookup \<open>aggregates[key]\<close> also finds the properties that a plain object inherits from
  \<open>Object.prototype\<close>; the value of each of them is an object or a function, hence truthy.
\<close>

definition object_prototype_keys :: "string list" where
  "object_prototype_keys =
     [''constructor'', ''__defineGetter__'', ''__defineSetter__'', ''hasOwnProperty'',
      ''__lookupGetter__'', ''__lookupSetter__'', ''isPrototypeOf'', ''propertyIsEnumerable'',
      ''toString'', ''valueOf'', ''__proto__'', ''toLocaleString'']"

datatype 'v found = Own 'v | Inherited | Absent

definition lookup :: "(string \<times> 'v) list \<Rightarrow> string \<Rightarrow> 'v found" where
  "lookup obj key =
     (case map_of obj key of
        Some v \<Rightarrow> Own v
      | None \<Rightarrow> if key \<in> set object_prototype_keys then Inherited else Absent)"

fun assign :: "string \<Rightarrow> 'v \<Rightarrow> (string \<times> 'v) list \<Rightarrow> (string \<times> 'v) list" where
  "assign k v [] = [(k, v)]"
| "assign k v (p # ps) = (if fst p = k then (k, v) # ps else p # assign k v ps)"

definition newAggregate :: "'n submission \<Rightarrow> ('n::zero) aggregate" where
  "newAggregate sub =
     \<lparr>sessionId = sessionId sub,
      studentName = studentName sub,
      introductionTeam = 0,
      projectInspiration = 0,
      technologyArchitecture = 0,
      algorithmsCode = 0,
      processCollaboration = 0,
      challengesFaced = 0,
      technicalLearnings = 0,
      audibles = 0,
      clarity = 0,
      fewFillerWords = 0,
      stagePosition = 0,
      confidentPosture = 0,
      professionalAttire = 0,
      timeManagement = 0,
      energy = 0,
      audienceInteraction = 0,
      projectFunctionality = 0,
      questionsAnswers = 0,
      count = 0\<rparr>"

text \<open>The body of the \<open>forEach\<close> callback after the lookup: \<open>agg.x += sub.x\<close> for each of the
  18 criteria, and \<open>agg.count += 1\<close>.\<close>

definition addSubmission :: "('n::plus) aggregate \<Rightarrow> 'n submission \<Rightarrow> 'n aggregate" where
  "addSubmission agg sub = agg
     \<lparr>introductionTeam := introductionTeam agg + introductionTeam sub,
      projectInspiration := projectInspiration agg + projectInspiration sub,
      technologyArchitecture := technologyArchitecture agg + technologyArchitecture sub,
      algorithmsCode := algorithmsCode agg + algorithmsCode sub,
      processCollaboration := processCollaboration agg + processCollaboration sub,
      challengesFaced := challengesFaced agg + challengesFaced sub,
      technicalLearnings := technicalLearnings agg + technicalLearnings sub,
      audibles := audibles agg + audibles sub,
      clarity := clarity agg + clarity sub,
      fewFillerWords := fewFillerWords agg + fewFillerWords sub,
      stagePosition := stagePosition agg + stagePosition sub,
      confidentPosture := confidentPosture agg + confidentPosture sub,
      professionalAttire := professionalAttire agg + professionalAttire sub,
      timeManagement := timeManagement agg + timeManagement sub,
      energy := energy agg + energy sub,
      audienceInteraction := audienceInteraction agg + audienceInteraction sub,
      projectFunctionality := projectFunctionality agg + projectFunctionality sub,
      questionsAnswers := questionsAnswers agg + questionsAnswers sub,
      count := count agg + 1\<rparr>"

text \<open>
  One call of the \<open>forEach\<close> callback. When the key is absent, the accumulator is created
  and the submission added to it. When the key names an inherited property, the test
  \<open>!aggregates[key]\<close> fails, no accumulator is created, and the \<open>+=\<close> assign to properties
  of the inherited object or function: \<open>aggregates\<close> gets no own property, so
  \<open>Object.values\<close> has nothing to enumerate for this submission.
\<close>

definition forEach_step ::
  "'n builtins \<Rightarrow> (string \<times> ('n::{zero,plus}) aggregate) list \<Rightarrow> 'n submission
     \<Rightarrow> (string \<times> 'n aggregate) list" where
  "forEach_step N aggs sub =
     (let key = group_key N sub
      in case lookup aggs key of
           Absent \<Rightarrow> assign key (addSubmission (newAggregate sub) sub) aggs
         | Own agg \<Rightarrow> assign key (addSubmission agg sub) aggs
         | Inherited \<Rightarrow> aggs)"

definition aggregates ::
  "'n builtins \<Rightarrow> 'n submission list \<Rightarrow> (string \<times> ('n::{zero,plus}) aggregate) list" where
  "aggregates N raw = foldl (forEach_step N) [] raw"

text \<open>
  \<open>count\<close> is a JavaScript number that starts at \<open>0\<close> and only changes by \<open>+= 1\<close>. The
  model keeps the number of increments; \<open>count_number n\<close> is the number reached after \<open>n\<close>
  of them, by which the sums are divided.
\<close>

fun count_number :: "nat \<Rightarrow> 'n::{zero,one,plus}" where
  "count_number 0 = 0"
| "count_number (Suc n) = count_number n + 1"

definition averages_of :: "('n::{zero,one,plus,inverse}) aggregate \<Rightarrow> 'n averages" where
  "averages_of a =
     \<lparr>sessionId = sessionId a,
      studentName = studentName a,
      introductionTeamAvg = introductionTeam a / count_number (count a),
      projectInspirationAvg = projectInspiration a / count_number (count a),
      technologyArchitectureAvg = technologyArchitecture a / count_number (count a),
      algorithmsCodeAvg = algorithmsCode a / count_number (count a),
      processCollaborationAvg = processCollaboration a / count_number (count a),
      challengesFacedAvg = challengesFaced a / count_number (count a),
      technicalLearningsAvg = technicalLearnings a / count_number (count a),
      audiblesAvg = audibles a / count_number (count a),
      clarityAvg = clarity a / count_number (count a),
      fewFillerWordsAvg = fewFillerWords a / count_number (count a),
      stagePositionAvg = stagePosition a / count_number (count a),
      confidentPostureAvg = confidentPosture a / count_number (count a),
      professionalAttireAvg = professionalAttire a / count_number (count a),
      timeManagementAvg = timeManagement a / count_number (count a),
      energyAvg = energy a / count_number (count a),
      audienceInteractionAvg = audienceInteraction a / count_number (count a),
      projectFunctionalityAvg = projectFunctionality a / count_number (count a),
      questionsAnswersAvg = questionsAnswers a / count_number (count a)\<rparr>"

definition aggregated ::
  "'n builtins \<Rightarrow> 'n submission list \<Rightarrow> ('n::{zero,one,plus,inverse}) averages list" where
  "aggregated N raw = map (\<lambda>(key, a). averages_of a) (aggregates N raw)"

text \<open>
  \<open>GET /api/resultsWithAverages\<close>. The template literal of the loop throws when the
  \<open>sessionId\<close> or the \<open>studentName\<close> of a raw submission cannot be converted to a string;
  the exception leaves the loop and the handler.
\<close>

definition get_resultsWithAverages ::
  "('n::{zero,one,plus,inverse}) builtins \<Rightarrow> 'n request \<Rightarrow> 'n server \<Rightarrow> 'n response \<times> 'n server" where
  "get_resultsWithAverages N req st = isAuthenticated req (\<lambda>userCampus.
     if list_ex (\<lambda>sub. toString_throws N (sessionId sub) \<or> toString_throws N (studentName sub))
          (rawSubmissions N st userCampus)
     then (internal_server_error, st)
     else ((200, Results (rawSubmissions N st userCampus)
                    (aggregated N (rawSubmissions N st userCampus))
                    (campusSessions st userCampus)), st)) st"

section \<open>The operations as one step function\<close>

datatype operation =
    ListSessions
  | CreateSession string
  | DeleteSession
  | AddJury
  | RemoveJury
  | AddStudent
  | RemoveStudent
  | SubmitEvaluation
  | ResultsWithAverages

fun perform ::
  "('n::{zero,one,plus,inverse}) builtins \<Rightarrow> operation \<Rightarrow> 'n request \<Rightarrow> 'n server
     \<Rightarrow> 'n response \<times> 'n server" where
  "perform N ListSessions = get_sessions N"
| "perform N (CreateSession uuid) = post_sessions N uuid"
| "perform N DeleteSession = delete_session N"
| "perform N AddJury = post_juries N"
| "perform N RemoveJury = delete_juries N"
| "perform N AddStudent = post_students N"
| "perform N RemoveStudent = delete_students N"
| "perform N SubmitEvaluation = post_submitEvaluation N"
| "perform N ResultsWithAverages = get_resultsWithAverages N"

text \<open>A run of the server: the requests are handled one after the other.\<close>

fun run ::
  "('n::{zero,one,plus,inverse}) builtins \<Rightarrow> (operation \<times> 'n request) list \<Rightarrow> 'n server
     \<Rightarrow> 'n server" where
  "run N [] st = st"
| "run N ((op, req) # rest) st = run N rest (snd (perform N op req st))"

section \<open>Notions of the specification\<close>

text \<open>A field that is \<^emph>\<open>empty or absent\<close>: the property is missing from the body, or it is
  the empty string.\<close>

definition empty_or_absent :: "'n jsval \<Rightarrow> bool" where
  "empty_or_absent v = (v = JUndefined \<or> v = JStr [])"

text \<open>The sessions of the store, in order, each as its id and its campus.\<close>

definition campuses :: "'n server \<Rightarrow> (string \<times> string) list" where
  "campuses st = map (\<lambda>s. (id' s, campus s)) (sessions (dbData st))"

text \<open>The id and the campus of every session that the creations of a run may add: the
  value of \<open>uuidv4\<close> and the campus of the caller.\<close>

fun created :: "(operation \<times> 'n request) list \<Rightarrow> (string \<times> string) list" where
  "created [] = []"
| "created ((CreateSession uuid, req) # rest) =
     (case session_user req of Some userCampus \<Rightarrow> [(uuid, userCampus)] | None \<Rightarrow> [])
     @ created rest"
| "created (_ # rest) = created rest"

text \<open>The 18 criteria, the name of the property that holds each, and its value in a
  submission or an accumulator.\<close>

datatype criterion =
    IntroductionTeam
  | ProjectInspiration
  | TechnologyArchitecture
  | AlgorithmsCode
  | ProcessCollaboration
  | ChallengesFaced
  | TechnicalLearnings
  | Audibles
  | Clarity
  | FewFillerWords
  | StagePosition
  | ConfidentPosture
  | ProfessionalAttire
  | TimeManagement
  | Energy
  | AudienceInteraction
  | ProjectFunctionality
  | QuestionsAnswers

fun property :: "criterion \<Rightarrow> string" where
  "property IntroductionTeam = ''introductionTeam''"
| "property ProjectInspiration = ''projectInspiration''"
| "property TechnologyArchitecture = ''technologyArchitecture''"
| "property AlgorithmsCode = ''algorithmsCode''"
| "property ProcessCollaboration = ''processCollaboration''"
| "property ChallengesFaced = ''challengesFaced''"
| "property TechnicalLearnings = ''technicalLearnings''"
| "property Audibles = ''audibles''"
| "property Clarity = ''clarity''"
| "property FewFillerWords = ''fewFillerWords''"
| "property StagePosition = ''stagePosition''"
| "property ConfidentPosture = ''confidentPosture''"
| "property ProfessionalAttire = ''professionalAttire''"
| "property TimeManagement = ''timeManagement''"
| "property Energy = ''energy''"
| "property AudienceInteraction = ''audienceInteraction''"
| "property ProjectFunctionality = ''projectFunctionality''"
| "property QuestionsAnswers = ''questionsAnswers''"


text \<open>
  The submissions of a sequence grouped by a key: one group per distinct key, the groups in
  the order in which their keys first occur, each group in the order of the sequence.
\<close>

fun groups :: "('a \<Rightarrow> 'k) \<Rightarrow> 'a list \<Rightarrow> 'a list list" where
  "groups k [] = []"
| "groups k (x # xs) =
     (x # filter (\<lambda>y. k y = k x) xs) # groups k (filter (\<lambda>y. k y \<noteq> k x) xs)"

definition pair_of :: "'n submission \<Rightarrow> 'n jsval \<times> 'n jsval" where
  "pair_of sub = (sessionId sub, studentName sub)"

text \<open>
  The sum of the values \<open>vs\<close>, added from left to right to \<open>0\<close>, and the row of a group \<open>g\<close>:
  for each criterion, the sum of its values over the submissions of the group divided by
  the number of submissions of the group.
\<close>

definition sum_of :: "('n::{zero,plus}) list \<Rightarrow> 'n" where
  "sum_of vs = foldl (+) 0 vs"

definition average_row :: "('n::{zero,one,plus,inverse}) submission list \<Rightarrow> 'n averages" where
  "average_row g =
     \<lparr>sessionId = sessionId (hd g),
      studentName = studentName (hd g),
      introductionTeamAvg = sum_of (map introductionTeam g) / count_number (length g),
      projectInspirationAvg = sum_of (map projectInspiration g) / count_number (length g),
      technologyArchitectureAvg = sum_of (map technologyArchitecture g) / count_number (length g),
      algorithmsCodeAvg = sum_of (map algorithmsCode g) / count_number (length g),
      processCollaborationAvg = sum_of (map processCollaboration g) / count_number (length g),
      challengesFacedAvg = sum_of (map challengesFaced g) / count_number (length g),
      technicalLearningsAvg = sum_of (map technicalLearnings g) / count_number (length g),
      audiblesAvg = sum_of (map audibles g) / count_number (length g),
      clarityAvg = sum_of (map clarity g) / count_number (length g),
      fewFillerWordsAvg = sum_of (map fewFillerWords g) / count_number (length g),
      stagePositionAvg = sum_of (map stagePosition g) / count_number (length g),
      confidentPostureAvg = sum_of (map confidentPosture g) / count_number (length g),
      professionalAttireAvg = sum_of (map professionalAttire g) / count_number (length g),
      timeManagementAvg = sum_of (map timeManagement g) / count_number (length g),
      energyAvg = sum_of (map energy g) / count_number (length g),
      audienceInteractionAvg = sum_of (map audienceInteraction g) / count_number (length g),
      projectFunctionalityAvg = sum_of (map projectFunctionality g) / count_number (length g),
      questionsAnswersAvg = sum_of (map questionsAnswers g) / count_number (length g)\<rparr>"

text \<open>The accumulators that the \<open>forEach\<close> loop builds, group by group.\<close>

definition grouped ::
  "'n builtins \<Rightarrow> ('n::{zero,plus}) submission list \<Rightarrow> (string \<times> 'n aggregate) list" where
  "grouped N xs =
     map (\<lambda>g. (group_key N (hd g), foldl addSubmission (newAggregate (hd g)) g))
       (groups (group_key N) xs)"

section \<open>An instance for evaluation\<close>

text \<open>
  To evaluate the model on concrete requests, numbers are instantiated by the rationals
  with a NaN that absorbs every operation. This fragment has no infinities and no
  rounding; a quotient by zero, which no example below takes, is NaN in it.
  \<open>example_builtins\<close> agrees with JavaScript on the values used in the examples:
  \<open>parseFloat_string\<close> on strings of decimal digits and on strings that do not start with
  a number (\<open>undefined\<close>, \<open>true\<close>); \<open>num_toString\<close> on NaN and zero. The reference \<open>0\<close>
  stands for the object \<^verbatim>\<open>{"toString": 1}\<close>, every other reference for an object that
  converts to \<open>[object Object]\<close>.
\<close>

datatype number = NaN | Num rat

instantiation number :: "{zero,one,plus,inverse}"
begin

definition zero_number :: number where
  "zero_number = Num 0"

definition one_number :: number where
  "one_number = Num 1"

fun plus_number :: "number \<Rightarrow> number \<Rightarrow> number" where
  "plus_number (Num a) (Num b) = Num (a + b)"
| "plus_number _ _ = NaN"

fun divide_number :: "number \<Rightarrow> number \<Rightarrow> number" where
  "divide_number (Num a) (Num b) = (if b = 0 then NaN else Num (a / b))"
| "divide_number _ _ = NaN"

definition inverse_number :: "number \<Rightarrow> number" where
  "inverse_number a = divide (Num 1) a"

instance ..

end

definition digit_value :: "char \<Rightarrow> nat option" where
  "digit_value c = map_of (zip ''0123456789'' [0, 1, 2, 3, 4, 5, 6, 7, 8, 9]) c"

fun digits_value :: "nat \<Rightarrow> string \<Rightarrow> nat option" where
  "digits_value acc [] = Some acc"
| "digits_value acc (c # cs) =
     (case digit_value c of
        None \<Rightarrow> None
      | Some d \<Rightarrow> digits_value (10 * acc + d) cs)"

definition example_parseFloat_string :: "string \<Rightarrow> number" where
  "example_parseFloat_string s =
     (if s = [] then NaN
      else case digits_value 0 s of None \<Rightarrow> NaN | Some n \<Rightarrow> Num (of_nat n))"

definition example_builtins :: "number builtins" where
  "example_builtins =
     \<lparr>num_falsy = (\<lambda>x. x = NaN \<or> x = Num 0),
      num_strict_eq = (\<lambda>x y. x \<noteq> NaN \<and> x = y),
      num_same_value_zero = (\<lambda>x y. x = y),
      num_toString = (\<lambda>x. if x = NaN then ''NaN'' else ''0''),
      obj_toString = (\<lambda>r. ''[object Object]''),
      obj_toString_throws = (\<lambda>r. r = 0),
      parseFloat_string = example_parseFloat_string\<rparr>"

text \<open>A store with one session of Toulouse, and requests of Toulouse and of Paris.\<close>

definition example_id :: string where
  "example_id = ''1b9d6bcd-bbfd-4b2d-9b5d-ab8dfbbd4bed''"

definition example_session :: "number session" where
  "example_session =
     \<lparr>id' = example_id, name = JStr ''C#22'', campus = ''Toulouse'',
      juries = [JStr ''Hugo''], students = [JStr ''Fabien'']\<rparr>"

definition example_server :: "number server" where
  "example_server =
     \<lparr>dbData = \<lparr>sessions = [example_session], submissions = []\<rparr>,
      db_json = \<lparr>sessions = [example_session], submissions = []\<rparr>\<rparr>"

definition example_request ::
  "string \<Rightarrow> string \<Rightarrow> (string \<times> number jsval) list \<Rightarrow> number request" where
  "example_request user sid props =
     \<lparr>session_user = Some user, params_id = sid,
      body = (\<lambda>k. case map_of props k of None \<Rightarrow> JUndefined | Some v \<Rightarrow> v)\<rparr>"

text \<open>The evaluation that the test suite submits; it has no \<open>projectFunctionality\<close>.\<close>

definition example_evaluation :: "(string \<times> number jsval) list" where
  "example_evaluation =
     [(''sessionId'', JStr example_id), (''juryName'', JStr ''Hugo''),
      (''studentName'', JStr ''Fabien''),
      (''introductionTeam'', JStr ''1''), (''projectInspiration'', JStr ''1''),
      (''technologyArchitecture'', JStr ''5''), (''algorithmsCode'', JStr ''5''),
      (''processCollaboration'', JStr ''2''), (''challengesFaced'', JStr ''5''),
      (''technicalLearnings'', JStr ''1''), (''audibles'', JStr ''1''),
      (''clarity'', JStr ''1''), (''fewFillerWords'', JStr ''1''),
      (''stagePosition'', JStr ''1''), (''confidentPosture'', JStr ''1''),
      (''professionalAttire'', JStr ''1''), (''timeManagement'', JStr ''1''),
      (''energy'', JStr ''1''), (''audienceInteraction'', JStr ''1''),
      (''questionsAnswers'', JStr ''1''), (''studentComments'', JStr ''Well done!'')]"

text \<open>The submission that this evaluation stores.\<close>

definition example_submission :: "number submission" where
  "example_submission =
     \<lparr>sessionId = JStr example_id,
      studentName = JStr ''Fabien'',
      introductionTeam = Num 1,
      projectInspiration = Num 1,
      technologyArchitecture = Num 5,
      algorithmsCode = Num 5,
      processCollaboration = Num 2,
      challengesFaced = Num 5,
      technicalLearnings = Num 1,
      audibles = Num 1,
      clarity = Num 1,
      fewFillerWords = Num 1,
      stagePosition = Num 1,
      confidentPosture = Num 1,
      professionalAttire = Num 1,
      timeManagement = Num 1,
      energy = Num 1,
      audienceInteraction = Num 1,
      projectFunctionality = NaN,
      questionsAnswers = Num 1,
      juryName = JStr ''Hugo'',
      studentComments = JStr ''Well done!''\<rparr>"

definition example_evaluated :: "number server" where
  "example_evaluated =
     \<lparr>dbData = \<lparr>sessions = [example_session], submissions = [example_submission]\<rparr>,
      db_json = \<lparr>sessions = [example_session], submissions = [example_submission]\<rparr>\<rparr>"

text \<open>A store whose session lists a jury and a student twice.\<close>

definition example_panel_session :: "number session" where
  "example_panel_session =
     \<lparr>id' = example_id, name = JStr ''C#22'', campus = ''Toulouse'',
      juries = [JStr ''Hugo'', JStr ''Ana'', JStr ''Hugo''],
      students = [JStr ''Fabien'', JStr ''Fabien'']\<rparr>"

definition example_panel :: "number server" where
  "example_panel =
     \<lparr>dbData = \<lparr>sessions = [example_panel_session], submissions = []\<rparr>,
      db_json = \<lparr>sessions = [example_panel_session], submissions = []\<rparr>\<rparr>"

text \<open>A second evaluation of the same student, with another first score.\<close>

definition example_second_submission :: "number submission" where
  "example_second_submission = example_submission\<lparr>introductionTeam := Num 2\<rparr>"

text \<open>
  A store in which the students \<open>true\<close> (a boolean) and \<open>"true"\<close> (a string) belong to one
  session and one evaluation was submitted for each.
\<close>

definition example_mixed_session :: "number session" where
  "example_mixed_session =
     \<lparr>id' = example_id, name = JStr ''C#22'', campus = ''Toulouse'',
      juries = [JStr ''Hugo''], students = [JBool True, JStr ''true'']\<rparr>"

definition example_boolean_submission :: "number submission" where
  "example_boolean_submission = example_submission\<lparr>studentName := JBool True\<rparr>"

definition example_string_submission :: "number submission" where
  "example_string_submission = example_submission\<lparr>studentName := JStr ''true''\<rparr>"

definition example_mixed :: "number server" where
  "example_mixed =
     \<lparr>dbData = \<lparr>sessions = [example_mixed_session],
                 submissions = [example_boolean_submission, example_string_submission]\<rparr>,
      db_json = \<lparr>sessions = [example_mixed_session],
                  submissions = [example_boolean_submission, example_string_submission]\<rparr>\<rparr>"

text \<open>
  The requests that lead to this store from the empty document with which a server without
  a database file starts: the session is created, the jury and the two students are added,
  and the evaluation of the test suite is submitted once for each student.
\<close>

definition example_empty :: "number server" where
  "example_empty =
     \<lparr>dbData = \<lparr>sessions = [], submissions = []\<rparr>,
      db_json = \<lparr>sessions = [], submissions = []\<rparr>\<rparr>"

definition example_mixed_requests :: "(operation \<times> number request) list" where
  "example_mixed_requests =
     [(CreateSession example_id, example_request ''Toulouse'' [] [(''name'', JStr ''C#22'')]),
      (AddJury, example_request ''Toulouse'' example_id [(''juryName'', JStr ''Hugo'')]),
      (AddStudent, example_request ''Toulouse'' example_id [(''studentName'', JBool True)]),
      (AddStudent, example_request ''Toulouse'' example_id [(''studentName'', JStr ''true'')]),
      (SubmitEvaluation,
       example_request ''Toulouse'' [] ((''studentName'', JBool True) # example_evaluation)),
      (SubmitEvaluation,
       example_request ''Toulouse'' [] ((''studentName'', JStr ''true'') # example_evaluation))]"

section \<open>Properties\<close>

subsection \<open>Auxiliary facts\<close>

lemma empty_or_absent_falsy: "empty_or_absent v \<Longrightarrow> \<not> truthy N v"
  by (auto simp: empty_or_absent_def)

lemma strict_eq_JStr [simp]: "strict_eq N v (JStr s) = (v = JStr s)"
  by (cases v) (auto split: jsval.splits)

lemma findIndex_None: "(findIndex P xs = None) = (find P xs = None)"
  by (induction xs) auto

lemma findIndex_Some:
  "findIndex P xs = Some i \<Longrightarrow>
     find P xs = Some (xs ! i) \<and> splice1 i xs = remove1 (xs ! i) xs"
proof (induction xs arbitrary: i)
  case Nil
  then show ?case by simp
next
  case (Cons x xs)
  show ?case
  proof (cases "P x")
    case True
    with Cons.prems show ?thesis by (simp add: splice1_def)
  next
    case False
    with Cons.prems obtain j where j: "findIndex P xs = Some j" "i = Suc j" by auto
    from Cons.IH[OF j(1)] have ih: "find P xs = Some (xs ! j)" "splice1 j xs = remove1 (xs ! j) xs"
      by simp_all
    from ih(1) have "P (xs ! j)" by (auto simp: find_Some_iff)
    with False have "x \<noteq> xs ! j" by auto
    with False ih j show ?thesis by (simp add: splice1_def)
  qed
qed

lemma find_findIndex:
  "find P xs = Some s \<Longrightarrow> \<exists>i. findIndex P xs = Some i \<and> xs ! i = s \<and> splice1 i xs = remove1 s xs"
proof -
  assume a: "find P xs = Some s"
  then obtain i where i: "findIndex P xs = Some i"
    using findIndex_None[of P xs] by (cases "findIndex P xs") auto
  with findIndex_Some[OF i] a show ?thesis by auto
qed

lemma server_eq: "(st::'n server)\<lparr>dbData := d, db_json := d'\<rparr> = \<lparr>dbData = d, db_json = d'\<rparr>"
  by (cases st) simp

lemma db_sessions_eq: "(d::'n db)\<lparr>sessions := a\<rparr> = \<lparr>sessions = a, submissions = submissions d\<rparr>"
  by (cases d) simp

lemma db_submissions_eq: "(d::'n db)\<lparr>submissions := b\<rparr> = \<lparr>sessions = sessions d, submissions = b\<rparr>"
  by (cases d) simp

lemma db_same: "\<lparr>sessions = sessions d, submissions = submissions d\<rparr> = (d::'n db)"
  by (cases d) simp

lemma db_eq: "(d::'n db)\<lparr>sessions := a, submissions := b\<rparr> = \<lparr>sessions = a, submissions = b\<rparr>"
  by (cases d) simp

lemma find_strict_eq_id:
  "find (\<lambda>s. strict_eq N (JStr (id' s)) v) xs = find (\<lambda>s. JStr (id' s) = v) xs"
  by (induction xs) auto

lemma find_update_first:
  "find P xs = Some s \<Longrightarrow> P (f s) \<Longrightarrow> find P (update_first P f xs) = Some (f s)"
  by (induction xs) (auto split: if_splits)

lemma update_first_same:
  "find P xs = Some s \<Longrightarrow> f s = s \<Longrightarrow> update_first P f xs = xs"
  by (induction xs) (auto split: if_splits)

lemma change_session_found:
  assumes "find (\<lambda>s. id' s = sid) (sessions (dbData st)) = Some s"
  shows "change_session sid f msg userCampus st =
     (if campus s \<noteq> userCampus then (forbidden, st)
      else ((200, MessageSession msg (f s)),
            \<lparr>dbData = \<lparr>sessions = update_first (\<lambda>s. id' s = sid) f (sessions (dbData st)),
                        submissions = submissions (dbData st)\<rparr>,
             db_json = \<lparr>sessions = update_first (\<lambda>s. id' s = sid) f (sessions (dbData st)),
                         submissions = submissions (dbData st)\<rparr>\<rparr>))"
  using assms
  by (simp add: change_session_def saveDatabase_def Let_def server_eq db_sessions_eq)

lemma change_session_not_found:
  assumes "find (\<lambda>s. id' s = sid) (sessions (dbData st)) = None"
  shows "change_session sid f msg userCampus st = (not_found, st)"
  using assms by (simp add: change_session_def)

lemma change_session_foreign:
  assumes "find (\<lambda>s. id' s = sid) (sessions (dbData st)) = Some s" and "campus s \<noteq> userCampus"
  shows "change_session sid f msg userCampus st = (forbidden, st)"
  using assms by (simp add: change_session_found)

lemma campuses_update_first:
  "(\<And>x. id' (f x) = id' x \<and> campus (f x) = campus x) \<Longrightarrow>
   map (\<lambda>s. (id' s, campus s)) (update_first P f xs) = map (\<lambda>s. (id' s, campus s)) xs"
  by (induction xs) auto

lemma change_session_campuses:
  assumes "\<And>x. id' (f x) = id' x \<and> campus (f x) = campus x"
  shows "campuses (snd (change_session sid f msg userCampus st)) = campuses st"
proof (cases "find (\<lambda>s. id' s = sid) (sessions (dbData st))")
  case None
  then show ?thesis by (simp add: change_session_not_found)
next
  case (Some s)
  then show ?thesis
    by (simp add: change_session_found campuses_def campuses_update_first[OF assms])
qed

lemma findIndex_less: "findIndex P xs = Some i \<Longrightarrow> i < length xs"
  by (induction xs arbitrary: i) (auto split: if_splits)

lemma splice1_map: "map f (splice1 i xs) = splice1 i (map f xs)"
  by (simp add: splice1_def take_map drop_map)

subsection \<open>Facts about the examples\<close>

lemma example_request_simps:
  "session_user (example_request user sid props) = Some user"
  "params_id (example_request user sid props) = sid"
  "body (example_request user sid props) k =
     (case map_of props k of None \<Rightarrow> JUndefined | Some v \<Rightarrow> v)"
  by (simp_all add: example_request_def)

lemma example_session_simps:
  "id' example_session = example_id"
  "campus example_session = ''Toulouse''"
  "juries example_session = [JStr ''Hugo'']"
  "students example_session = [JStr ''Fabien'']"
  by (simp_all add: example_session_def)

lemma example_submission_key:
  "sessionId example_submission = JStr example_id"
  "studentName example_submission = JStr ''Fabien''"
  by (simp_all add: example_submission_def)

lemma example_id_not_0: "example_id \<noteq> ''0''"
  by (simp add: example_id_def)

lemma example_server_simps:
  "sessions (dbData example_server) = [example_session]"
  "submissions (dbData example_server) = []"
  "sessions (dbData example_evaluated) = [example_session]"
  "submissions (dbData example_evaluated) = [example_submission]"
  by (simp_all add: example_server_def example_evaluated_def)

lemma example_evaluation_body:
  "map_of example_evaluation ''sessionId'' = Some (JStr example_id)"
  "map_of example_evaluation ''juryName'' = Some (JStr ''Hugo'')"
  "map_of example_evaluation ''studentName'' = Some (JStr ''Fabien'')"
  "map_of example_evaluation ''projectFunctionality'' = None"
  "map_of example_evaluation ''studentComments'' = Some (JStr ''Well done!'')"
  by (simp_all add: example_evaluation_def)



lemma example_panel_simps:
  "sessions (dbData example_panel) = [example_panel_session]"
  "id' example_panel_session = example_id"
  "campus example_panel_session = ''Toulouse''"
  "juries example_panel_session = [JStr ''Hugo'', JStr ''Ana'', JStr ''Hugo'']"
  "students example_panel_session = [JStr ''Fabien'', JStr ''Fabien'']"
  by (simp_all add: example_panel_def example_panel_session_def)

subsection \<open>Order of the checks when a jury or a student is added\<close>

text \<open>
  C10. When a jury or a student is added, the name is checked before the session is looked
  up: an authenticated request whose \<open>juryName\<close> (\<open>studentName\<close>) is empty or absent is
  answered 400, whatever the session id of the request is, whether no session has it or
  the session belongs to another campus, and the store is left as it was.
\<close>

theorem missing_name_is_checked_first:
  assumes "session_user req = Some userCampus"
  shows "(empty_or_absent (body req ''juryName'') \<longrightarrow>
            post_juries N req st = ((400, Error ''Jury name is required.''), st)) \<and>
         (empty_or_absent (body req ''studentName'') \<longrightarrow>
            post_students N req st = ((400, Error ''Student name is required.''), st))"
  using assms
  by (simp add: post_juries_def post_students_def isAuthenticated_def empty_or_absent_falsy)

theorem missing_name_is_checked_first_witness:
  "session_user (example_request ''Paris'' example_id [(''juryName'', JStr [])]) = Some ''Paris'' \<and>
   empty_or_absent (body (example_request ''Paris'' example_id [(''juryName'', JStr [])]) ''juryName'') \<and>
   empty_or_absent (body (example_request ''Paris'' example_id [(''juryName'', JStr [])]) ''studentName'') \<and>
   find (\<lambda>s. id' s = example_id) (sessions (dbData example_server)) = Some example_session \<and>
   campus example_session \<noteq> ''Paris'' \<and>
   post_juries example_builtins (example_request ''Paris'' example_id [(''juryName'', JStr [])]) example_server
     = ((400, Error ''Jury name is required.''), example_server) \<and>
   post_students example_builtins (example_request ''Paris'' example_id [(''juryName'', JStr [])]) example_server
     = ((400, Error ''Student name is required.''), example_server) \<and>
   find (\<lambda>s. id' s = ''0'') (sessions (dbData example_server)) = None \<and>
   post_juries example_builtins (example_request ''Toulouse'' ''0'' []) example_server
     = ((400, Error ''Jury name is required.''), example_server)"
  using missing_name_is_checked_first
    [of "example_request ''Paris'' example_id [(''juryName'', JStr [])]" "''Paris''"
        example_builtins example_server]
    missing_name_is_checked_first
    [of "example_request ''Toulouse'' ''0'' []" "''Toulouse''" example_builtins example_server]
  by (simp add: example_request_simps empty_or_absent_def example_server_simps
      example_session_simps example_id_not_0)

subsection \<open>Deleting a session\<close>

lemma delete_session_found:
  assumes "session_user req = Some userCampus"
    and "find (\<lambda>s. id' s = params_id req) (sessions (dbData st)) = Some s"
  shows "delete_session N req st =
     (if campus s \<noteq> userCampus then (forbidden, st)
      else ((200, Message ''Session deleted successfully.''),
            \<lparr>dbData = \<lparr>sessions = remove1 s (sessions (dbData st)),
                        submissions = filter (\<lambda>sub. sessionId sub \<noteq> JStr (params_id req))
                                        (submissions (dbData st))\<rparr>,
             db_json = \<lparr>sessions = remove1 s (sessions (dbData st)),
                         submissions = filter (\<lambda>sub. sessionId sub \<noteq> JStr (params_id req))
                                         (submissions (dbData st))\<rparr>\<rparr>))"
proof -
  from find_findIndex[OF assms(2)] obtain i where
    i: "findIndex (\<lambda>s. id' s = params_id req) (sessions (dbData st)) = Some i"
       "sessions (dbData st) ! i = s"
       "splice1 i (sessions (dbData st)) = remove1 s (sessions (dbData st))"
    by blast
  show ?thesis
    using assms(1) i
    by (simp add: delete_session_def isAuthenticated_def saveDatabase_def server_eq db_eq Let_def)
qed

text \<open>
  C2. For an authenticated campus and a session id, the deletion answers 404 when no
  stored session has the id, and 403 when the session found belongs to another campus;
  in both cases the store is unchanged. Otherwise it removes that session and every
  submission whose \<open>sessionId\<close> is the id, writes the document, and no submission with the
  id remains.
\<close>

theorem delete_session_cascade:
  assumes "session_user req = Some userCampus"
  shows "((\<forall>s\<in>set (sessions (dbData st)). id' s \<noteq> params_id req) \<longrightarrow>
            delete_session N req st = ((404, Error ''Session not found.''), st)) \<and>
         (\<forall>s. find (\<lambda>s. id' s = params_id req) (sessions (dbData st)) = Some s \<longrightarrow>
            (campus s \<noteq> userCampus \<longrightarrow>
               delete_session N req st =
                 ((403, Error ''Forbidden - Session belongs to another campus.''), st)) \<and>
            (campus s = userCampus \<longrightarrow>
               delete_session N req st =
                 ((200, Message ''Session deleted successfully.''),
                  \<lparr>dbData = \<lparr>sessions = remove1 s (sessions (dbData st)),
                              submissions = filter (\<lambda>sub. sessionId sub \<noteq> JStr (params_id req))
                                              (submissions (dbData st))\<rparr>,
                   db_json = \<lparr>sessions = remove1 s (sessions (dbData st)),
                               submissions = filter (\<lambda>sub. sessionId sub \<noteq> JStr (params_id req))
                                               (submissions (dbData st))\<rparr>\<rparr>) \<and>
               (\<forall>sub\<in>set (submissions (dbData (snd (delete_session N req st)))).
                  sessionId sub \<noteq> JStr (params_id req))))"
proof (intro conjI allI impI ballI)
  assume "\<forall>s\<in>set (sessions (dbData st)). id' s \<noteq> params_id req"
  then have "findIndex (\<lambda>s. id' s = params_id req) (sessions (dbData st)) = None"
    by (simp add: findIndex_None find_None_iff)
  then show "delete_session N req st = ((404, Error ''Session not found.''), st)"
    using assms by (simp add: delete_session_def isAuthenticated_def not_found_def)
next
  fix s assume "find (\<lambda>s. id' s = params_id req) (sessions (dbData st)) = Some s"
    and "campus s \<noteq> userCampus"
  then show "delete_session N req st =
      ((403, Error ''Forbidden - Session belongs to another campus.''), st)"
    using delete_session_found[OF assms] by (simp add: forbidden_def)
next
  fix s assume f: "find (\<lambda>s. id' s = params_id req) (sessions (dbData st)) = Some s"
    and c: "campus s = userCampus"
  then show "delete_session N req st =
      ((200, Message ''Session deleted successfully.''),
       \<lparr>dbData = \<lparr>sessions = remove1 s (sessions (dbData st)),
                   submissions = filter (\<lambda>sub. sessionId sub \<noteq> JStr (params_id req))
                                   (submissions (dbData st))\<rparr>,
        db_json = \<lparr>sessions = remove1 s (sessions (dbData st)),
                    submissions = filter (\<lambda>sub. sessionId sub \<noteq> JStr (params_id req))
                                    (submissions (dbData st))\<rparr>\<rparr>)"
    using delete_session_found[OF assms] by simp
next
  fix s sub assume f: "find (\<lambda>s. id' s = params_id req) (sessions (dbData st)) = Some s"
    and c: "campus s = userCampus"
  assume "sub \<in> set (submissions (dbData (snd (delete_session N req st))))"
  then show "sessionId sub \<noteq> JStr (params_id req)"
    using delete_session_found[OF assms f] c by simp
qed

theorem delete_session_cascade_witness:
  "session_user (example_request ''Toulouse'' example_id []) = Some ''Toulouse'' \<and>
   find (\<lambda>s. id' s = example_id) (sessions (dbData example_evaluated)) = Some example_session \<and>
   campus example_session = ''Toulouse'' \<and>
   sessionId example_submission = JStr example_id \<and>
   delete_session example_builtins (example_request ''Toulouse'' example_id []) example_evaluated =
     ((200, Message ''Session deleted successfully.''),
      \<lparr>dbData = \<lparr>sessions = [], submissions = []\<rparr>,
       db_json = \<lparr>sessions = [], submissions = []\<rparr>\<rparr>) \<and>
   delete_session example_builtins (example_request ''Paris'' example_id []) example_evaluated =
     ((403, Error ''Forbidden - Session belongs to another campus.''), example_evaluated) \<and>
   delete_session example_builtins (example_request ''Toulouse'' ''0'' []) example_evaluated =
     ((404, Error ''Session not found.''), example_evaluated)"
  using delete_session_cascade
      [of "example_request ''Toulouse'' example_id []" "''Toulouse''" example_evaluated
          example_builtins]
    delete_session_cascade
      [of "example_request ''Paris'' example_id []" "''Paris''" example_evaluated
          example_builtins]
    delete_session_cascade
      [of "example_request ''Toulouse'' ''0'' []" "''Toulouse''" example_evaluated
          example_builtins]
  by (simp add: example_request_simps example_session_simps example_submission_key
      example_server_simps example_id_not_0)

subsection \<open>The submission built from a request\<close>

lemma ex_criterion:
  "(\<exists>cr. P cr) =
     (P IntroductionTeam \<or>
      P ProjectInspiration \<or>
      P TechnologyArchitecture \<or>
      P AlgorithmsCode \<or>
      P ProcessCollaboration \<or>
      P ChallengesFaced \<or>
      P TechnicalLearnings \<or>
      P Audibles \<or>
      P Clarity \<or>
      P FewFillerWords \<or>
      P StagePosition \<or>
      P ConfidentPosture \<or>
      P ProfessionalAttire \<or>
      P TimeManagement \<or>
      P Energy \<or>
      P AudienceInteraction \<or>
      P ProjectFunctionality \<or>
      P QuestionsAnswers)"
proof
  assume "\<exists>cr. P cr"
  then obtain cr where "P cr" ..
  then show "P IntroductionTeam \<or> P ProjectInspiration \<or> P TechnologyArchitecture \<or> P AlgorithmsCode \<or> P ProcessCollaboration \<or> P ChallengesFaced \<or> P TechnicalLearnings \<or> P Audibles \<or> P Clarity \<or> P FewFillerWords \<or> P StagePosition \<or> P ConfidentPosture \<or> P ProfessionalAttire \<or> P TimeManagement \<or> P Energy \<or> P AudienceInteraction \<or> P ProjectFunctionality \<or> P QuestionsAnswers"
    by (cases cr) simp_all
qed auto

lemma newSubmission_eq:
  "newSubmission N req =
     (if \<exists>cr. toString_throws N (body req (property cr)) then None
      else Some
         \<lparr>sessionId = body req ''sessionId'',
          studentName = body req ''studentName'',
          introductionTeam = parseFloat_string N (toString N (body req ''introductionTeam'')),
          projectInspiration = parseFloat_string N (toString N (body req ''projectInspiration'')),
          technologyArchitecture = parseFloat_string N (toString N (body req ''technologyArchitecture'')),
          algorithmsCode = parseFloat_string N (toString N (body req ''algorithmsCode'')),
          processCollaboration = parseFloat_string N (toString N (body req ''processCollaboration'')),
          challengesFaced = parseFloat_string N (toString N (body req ''challengesFaced'')),
          technicalLearnings = parseFloat_string N (toString N (body req ''technicalLearnings'')),
          audibles = parseFloat_string N (toString N (body req ''audibles'')),
          clarity = parseFloat_string N (toString N (body req ''clarity'')),
          fewFillerWords = parseFloat_string N (toString N (body req ''fewFillerWords'')),
          stagePosition = parseFloat_string N (toString N (body req ''stagePosition'')),
          confidentPosture = parseFloat_string N (toString N (body req ''confidentPosture'')),
          professionalAttire = parseFloat_string N (toString N (body req ''professionalAttire'')),
          timeManagement = parseFloat_string N (toString N (body req ''timeManagement'')),
          energy = parseFloat_string N (toString N (body req ''energy'')),
          audienceInteraction = parseFloat_string N (toString N (body req ''audienceInteraction'')),
          projectFunctionality = parseFloat_string N (toString N (body req ''projectFunctionality'')),
          questionsAnswers = parseFloat_string N (toString N (body req ''questionsAnswers'')),
          juryName = body req ''juryName'',
          studentComments = (if truthy N (body req ''studentComments'')
                             then body req ''studentComments'' else JStr [])\<rparr>)"
  unfolding ex_criterion by (simp add: newSubmission_def parseFloat_def)



lemma example_parse:
  "example_parseFloat_string ''1'' = Num 1"
  "example_parseFloat_string ''2'' = Num 2"
  "example_parseFloat_string ''5'' = Num 5"
  "example_parseFloat_string ''undefined'' = NaN"
  by (simp_all add: example_parseFloat_string_def digit_value_def)

lemma example_builtins_simps:
  "parseFloat_string example_builtins = example_parseFloat_string"
  "obj_toString_throws example_builtins r = (r = 0)"
  by (simp_all add: example_builtins_def)



lemma example_object_body:
  "body (example_request user sid ((k, v) # example_evaluation)) ''sessionId'' =
     (if k = ''sessionId'' then v else JStr example_id)"
  "body (example_request user sid ((k, v) # example_evaluation)) ''juryName'' =
     (if k = ''juryName'' then v else JStr ''Hugo'')"
  "body (example_request user sid ((k, v) # example_evaluation)) ''studentName'' =
     (if k = ''studentName'' then v else JStr ''Fabien'')"
  by (simp_all add: example_request_simps example_evaluation_body)

subsection \<open>Submitting an evaluation\<close>

lemma submit_found:
  assumes "session_user req = Some userCampus"
    and "find (\<lambda>s. JStr (id' s) = body req ''sessionId'') (sessions (dbData st)) = Some s"
  shows "post_submitEvaluation N req st =
     (if campus s \<noteq> userCampus then (forbidden, st)
      else if \<not> includes' N (juries s) (body req ''juryName'')
        then ((400, Error ''Jury does not exist in this session.''), st)
      else if \<not> includes' N (students s) (body req ''studentName'')
        then ((400, Error ''Student does not exist in this session.''), st)
      else case newSubmission N req of
             None \<Rightarrow> (internal_server_error, st)
           | Some submission \<Rightarrow>
               ((200, Message ''Evaluation submitted successfully!''),
                \<lparr>dbData = \<lparr>sessions = sessions (dbData st),
                            submissions = submissions (dbData st) @ [submission]\<rparr>,
                 db_json = \<lparr>sessions = sessions (dbData st),
                             submissions = submissions (dbData st) @ [submission]\<rparr>\<rparr>))"
  using assms unfolding post_submitEvaluation_def find_strict_eq_id
  by (simp add: isAuthenticated_def saveDatabase_def Let_def server_eq db_submissions_eq
      split: option.splits)







subsection \<open>Removing a jury or a student\<close>

text \<open>
  C5. When the session of the request is found and belongs to the caller, removing a jury
  (a student) answers 200 with the session, whose list has lost every entry strictly equal
  to the name of the request, not only the first one; when no entry of the list is equal
  to the name, the stored document is the same as before and the answer is still 200.
\<close>

theorem remove_deletes_every_match:
  assumes "session_user req = Some userCampus"
    and "find (\<lambda>s. id' s = params_id req) (sessions (dbData st)) = Some s"
    and "campus s = userCampus"
  shows "fst (delete_juries N req st) =
           (200, MessageSession ''Jury deleted successfully.''
              (s\<lparr>juries := filter (\<lambda>j. \<not> strict_eq N j (body req ''juryName'')) (juries s)\<rparr>)) \<and>
         find (\<lambda>s. id' s = params_id req) (sessions (dbData (snd (delete_juries N req st)))) =
           Some (s\<lparr>juries := filter (\<lambda>j. \<not> strict_eq N j (body req ''juryName'')) (juries s)\<rparr>) \<and>
         (\<forall>j\<in>set (filter (\<lambda>j. \<not> strict_eq N j (body req ''juryName'')) (juries s)).
            \<not> strict_eq N j (body req ''juryName'')) \<and>
         ((\<forall>j\<in>set (juries s). \<not> strict_eq N j (body req ''juryName'')) \<longrightarrow>
            fst (fst (delete_juries N req st)) = 200 \<and>
            dbData (snd (delete_juries N req st)) = dbData st) \<and>
         fst (delete_students N req st) =
           (200, MessageSession ''Student deleted successfully.''
              (s\<lparr>students := filter (\<lambda>t. \<not> strict_eq N t (body req ''studentName'')) (students s)\<rparr>)) \<and>
         find (\<lambda>s. id' s = params_id req) (sessions (dbData (snd (delete_students N req st)))) =
           Some (s\<lparr>students := filter (\<lambda>t. \<not> strict_eq N t (body req ''studentName'')) (students s)\<rparr>) \<and>
         (\<forall>t\<in>set (filter (\<lambda>t. \<not> strict_eq N t (body req ''studentName'')) (students s)).
            \<not> strict_eq N t (body req ''studentName'')) \<and>
         ((\<forall>t\<in>set (students s). \<not> strict_eq N t (body req ''studentName'')) \<longrightarrow>
            fst (fst (delete_students N req st)) = 200 \<and>
            dbData (snd (delete_students N req st)) = dbData st)"
proof -
  let ?P = "\<lambda>s. id' s = params_id req"
  let ?fj = "\<lambda>s::'a session. s\<lparr>juries := filter (\<lambda>j. \<not> strict_eq N j (body req ''juryName'')) (juries s)\<rparr>"
  let ?fs = "\<lambda>s::'a session. s\<lparr>students := filter (\<lambda>t. \<not> strict_eq N t (body req ''studentName'')) (students s)\<rparr>"
  have P: "?P s" using assms(2) by (auto simp: find_Some_iff)
  have j: "delete_juries N req st =
      ((200, MessageSession ''Jury deleted successfully.'' (?fj s)),
       \<lparr>dbData = \<lparr>sessions = update_first ?P ?fj (sessions (dbData st)),
                   submissions = submissions (dbData st)\<rparr>,
        db_json = \<lparr>sessions = update_first ?P ?fj (sessions (dbData st)),
                    submissions = submissions (dbData st)\<rparr>\<rparr>)"
    using assms(1,3) by (simp add: delete_juries_def isAuthenticated_def change_session_found[OF assms(2)])
  have t: "delete_students N req st =
      ((200, MessageSession ''Student deleted successfully.'' (?fs s)),
       \<lparr>dbData = \<lparr>sessions = update_first ?P ?fs (sessions (dbData st)),
                   submissions = submissions (dbData st)\<rparr>,
        db_json = \<lparr>sessions = update_first ?P ?fs (sessions (dbData st)),
                    submissions = submissions (dbData st)\<rparr>\<rparr>)"
    using assms(1,3) by (simp add: delete_students_def isAuthenticated_def change_session_found[OF assms(2)])
  have fj: "find ?P (update_first ?P ?fj (sessions (dbData st))) = Some (?fj s)"
    using find_update_first[OF assms(2), of ?fj] P by simp
  have fs: "find ?P (update_first ?P ?fs (sessions (dbData st))) = Some (?fs s)"
    using find_update_first[OF assms(2), of ?fs] P by simp
  have uj: "update_first ?P ?fj (sessions (dbData st)) = sessions (dbData st)"
    if "\<forall>j\<in>set (juries s). \<not> strict_eq N j (body req ''juryName'')"
    using that by (intro update_first_same[OF assms(2)]) simp
  have us: "update_first ?P ?fs (sessions (dbData st)) = sessions (dbData st)"
    if "\<forall>t\<in>set (students s). \<not> strict_eq N t (body req ''studentName'')"
    using that by (intro update_first_same[OF assms(2)]) simp
  show ?thesis
    unfolding j t by (simp add: fj fs uj us db_same)
qed

theorem remove_deletes_every_match_witness:
  "session_user (example_request ''Toulouse'' example_id [(''juryName'', JStr ''Hugo'')]) = Some ''Toulouse'' \<and>
   find (\<lambda>s. id' s = params_id (example_request ''Toulouse'' example_id [(''juryName'', JStr ''Hugo'')]))
     (sessions (dbData example_panel)) = Some example_panel_session \<and>
   campus example_panel_session = ''Toulouse'' \<and>
   fst (delete_juries example_builtins
          (example_request ''Toulouse'' example_id [(''juryName'', JStr ''Hugo'')]) example_panel) =
     (200, MessageSession ''Jury deleted successfully.''
             (example_panel_session\<lparr>juries := [JStr ''Ana'']\<rparr>)) \<and>
   fst (delete_students example_builtins
          (example_request ''Toulouse'' example_id [(''juryName'', JStr ''Hugo'')]) example_panel) =
     (200, MessageSession ''Student deleted successfully.'' example_panel_session) \<and>
   dbData (snd (delete_students example_builtins
          (example_request ''Toulouse'' example_id [(''juryName'', JStr ''Hugo'')]) example_panel)) =
     dbData example_panel"
proof -
  let ?r = "example_request ''Toulouse'' example_id [(''juryName'', JStr ''Hugo'')]"
  have h: "session_user ?r = Some ''Toulouse''"
    "find (\<lambda>s. id' s = params_id ?r) (sessions (dbData example_panel)) = Some example_panel_session"
    "campus example_panel_session = ''Toulouse''"
    by (simp_all add: example_request_simps example_panel_simps)
  have b: "body ?r ''juryName'' = JStr ''Hugo''" "body ?r ''studentName'' = JUndefined"
    by (simp_all add: example_request_simps)
  from remove_deletes_every_match[OF h, of example_builtins] h show ?thesis
    by (simp add: b example_panel_simps)
qed

subsection \<open>Creating a session\<close>




subsection \<open>Ownership isolation\<close>

text \<open>
  C4, as the claim states it, fails for the two routes that add a name: invoked by Paris
  on a session of Toulouse with no name in the body, they answer 400, not 403, since the
  name is checked before the session is looked up.
\<close>

theorem add_jury_foreign_session_counterexample:
  "session_user (example_request ''Paris'' example_id []) = Some ''Paris'' \<and>
   find (\<lambda>s. id' s = params_id (example_request ''Paris'' example_id []))
     (sessions (dbData example_server)) = Some example_session \<and>
   campus example_session = ''Toulouse'' \<and>
   post_juries example_builtins (example_request ''Paris'' example_id []) example_server =
     ((400, Error ''Jury name is required.''), example_server) \<and>
   post_students example_builtins (example_request ''Paris'' example_id []) example_server =
     ((400, Error ''Student name is required.''), example_server)"
  by (simp add: example_request_simps example_server_simps example_session_simps
      post_juries_def post_students_def isAuthenticated_def)

text \<open>
  C4, amended. The listing of a campus holds only sessions of that campus, so a session of
  another campus is never in it. When the session that a request targets belongs to
  another campus than the caller's, the deletion of the session, the removal of a jury or
  of a student and the submission of an evaluation answer 403, and so do the addition of a
  jury or of a student when the name of the request is truthy; with a falsy name these two
  answer 400. In every case the store is unchanged.
\<close>

theorem ownership_isolation:
  assumes "session_user req = Some userCampus"
  shows "get_sessions N req st =
           ((200, SessionList (filter (\<lambda>s. campus s = userCampus) (sessions (dbData st)))), st) \<and>
         (\<forall>s. campus s \<noteq> userCampus \<longrightarrow>
            s \<notin> set (filter (\<lambda>s. campus s = userCampus) (sessions (dbData st)))) \<and>
         (\<forall>s. find (\<lambda>s. id' s = params_id req) (sessions (dbData st)) = Some s \<and>
              campus s \<noteq> userCampus \<longrightarrow>
            delete_session N req st =
              ((403, Error ''Forbidden - Session belongs to another campus.''), st) \<and>
            delete_juries N req st =
              ((403, Error ''Forbidden - Session belongs to another campus.''), st) \<and>
            delete_students N req st =
              ((403, Error ''Forbidden - Session belongs to another campus.''), st) \<and>
            post_juries N req st =
              (if truthy N (body req ''juryName'')
               then ((403, Error ''Forbidden - Session belongs to another campus.''), st)
               else ((400, Error ''Jury name is required.''), st)) \<and>
            post_students N req st =
              (if truthy N (body req ''studentName'')
               then ((403, Error ''Forbidden - Session belongs to another campus.''), st)
               else ((400, Error ''Student name is required.''), st))) \<and>
         (\<forall>s. find (\<lambda>s. JStr (id' s) = body req ''sessionId'') (sessions (dbData st)) = Some s \<and>
              campus s \<noteq> userCampus \<longrightarrow>
            post_submitEvaluation N req st =
              ((403, Error ''Forbidden - Session belongs to another campus.''), st))"
  using assms
  by (auto simp: get_sessions_def isAuthenticated_def delete_session_found submit_found
      delete_juries_def delete_students_def post_juries_def post_students_def
      change_session_foreign forbidden_def)

theorem ownership_isolation_witness:
  "session_user (example_request ''Paris'' example_id example_evaluation) = Some ''Paris'' \<and>
   find (\<lambda>s. id' s = params_id (example_request ''Paris'' example_id example_evaluation))
     (sessions (dbData example_server)) = Some example_session \<and>
   find (\<lambda>s. JStr (id' s) = body (example_request ''Paris'' example_id example_evaluation) ''sessionId'')
     (sessions (dbData example_server)) = Some example_session \<and>
   campus example_session \<noteq> ''Paris'' \<and>
   get_sessions example_builtins (example_request ''Paris'' example_id example_evaluation) example_server =
     ((200, SessionList []), example_server) \<and>
   delete_session example_builtins (example_request ''Paris'' example_id example_evaluation) example_server =
     ((403, Error ''Forbidden - Session belongs to another campus.''), example_server) \<and>
   delete_juries example_builtins (example_request ''Paris'' example_id example_evaluation) example_server =
     ((403, Error ''Forbidden - Session belongs to another campus.''), example_server) \<and>
   delete_students example_builtins (example_request ''Paris'' example_id example_evaluation) example_server =
     ((403, Error ''Forbidden - Session belongs to another campus.''), example_server) \<and>
   post_juries example_builtins (example_request ''Paris'' example_id example_evaluation) example_server =
     ((403, Error ''Forbidden - Session belongs to another campus.''), example_server) \<and>
   post_students example_builtins (example_request ''Paris'' example_id example_evaluation) example_server =
     ((403, Error ''Forbidden - Session belongs to another campus.''), example_server) \<and>
   post_submitEvaluation example_builtins (example_request ''Paris'' example_id example_evaluation) example_server =
     ((403, Error ''Forbidden - Session belongs to another campus.''), example_server)"
  using ownership_isolation
      [of "example_request ''Paris'' example_id example_evaluation" "''Paris''"
          example_builtins example_server]
  by (simp add: example_request_simps example_server_simps example_session_simps
      example_evaluation_body)

subsection \<open>The campus of a session\<close>

lemma perform_campuses:
  "campuses (snd (perform N op req st)) = campuses st \<or>
   (\<exists>uuid userCampus. op = CreateSession uuid \<and> session_user req = Some userCampus \<and>
      campuses (snd (perform N op req st)) = campuses st @ [(uuid, userCampus)]) \<or>
   (\<exists>i<length (campuses st). op = DeleteSession \<and>
      campuses (snd (perform N op req st)) = splice1 i (campuses st))"
proof (cases "session_user req")
  case None
  then show ?thesis
    by (cases op)
       (simp_all add: get_sessions_def post_sessions_def delete_session_def post_juries_def
          delete_juries_def post_students_def delete_students_def post_submitEvaluation_def
          get_resultsWithAverages_def isAuthenticated_def)
next
  case (Some c)
  show ?thesis
  proof (cases op)
    case ListSessions
    then show ?thesis using Some by (simp add: get_sessions_def isAuthenticated_def)
  next
    case (CreateSession uuid)
    then show ?thesis using Some
      by (simp add: post_sessions_def isAuthenticated_def campuses_def saveDatabase_def Let_def)
  next
    case DeleteSession
    show ?thesis
    proof (cases "findIndex (\<lambda>s. id' s = params_id req) (sessions (dbData st))")
      case None
      then show ?thesis using Some DeleteSession
        by (simp add: delete_session_def isAuthenticated_def)
    next
      case (Some i)
      from findIndex_less[OF Some] have "i < length (campuses st)"
        by (simp add: campuses_def)
      then show ?thesis using Some \<open>session_user req = Some c\<close> DeleteSession
        by (auto simp: delete_session_def isAuthenticated_def campuses_def saveDatabase_def
            Let_def splice1_map)
    qed
  next
    case AddJury
    then show ?thesis using Some
      by (simp add: post_juries_def isAuthenticated_def change_session_campuses)
  next
    case RemoveJury
    then show ?thesis using Some
      by (simp add: delete_juries_def isAuthenticated_def change_session_campuses)
  next
    case AddStudent
    then show ?thesis using Some
      by (simp add: post_students_def isAuthenticated_def change_session_campuses)
  next
    case RemoveStudent
    then show ?thesis using Some
      by (simp add: delete_students_def isAuthenticated_def change_session_campuses)
  next
    case SubmitEvaluation
    then show ?thesis using Some
      by (simp add: post_submitEvaluation_def isAuthenticated_def campuses_def saveDatabase_def
          Let_def split: option.splits)
  next
    case ResultsWithAverages
    then show ?thesis using Some by (simp add: get_resultsWithAverages_def isAuthenticated_def)
  qed
qed

lemma set_splice1: "set (splice1 i xs) \<subseteq> set xs"
  by (auto simp: splice1_def dest: in_set_takeD in_set_dropD)

lemma perform_created:
  "set (campuses (snd (perform N op req st))) \<subseteq> set (campuses st) \<union> set (created [(op, req)])"
proof -
  consider
      (same) "campuses (snd (perform N op req st)) = campuses st"
    | (new) uuid userCampus where "op = CreateSession uuid" "session_user req = Some userCampus"
        "campuses (snd (perform N op req st)) = campuses st @ [(uuid, userCampus)]"
    | (gone) i where "campuses (snd (perform N op req st)) = splice1 i (campuses st)"
    using perform_campuses[of N op req st] by blast
  then show ?thesis
  proof cases
    case same
    then show ?thesis by simp
  next
    case new
    then show ?thesis by simp
  next
    case gone
    then show ?thesis using set_splice1[of i "campuses st"] by auto
  qed
qed

lemma created_Cons: "set (created (x # rest)) = set (created [x]) \<union> set (created rest)"
proof (cases x)
  case (Pair op req)
  then show ?thesis by (cases op) simp_all
qed

lemma run_campuses:
  "set (campuses (run N ops st)) \<subseteq> set (campuses st) \<union> set (created ops)"
proof (induction ops arbitrary: st)
  case Nil
  then show ?case by simp
next
  case (Cons x rest)
  obtain op req where x: "x = (op, req)" by (cases x)
  have "set (campuses (run N (x # rest) st))
      \<subseteq> set (campuses (snd (perform N op req st))) \<union> set (created rest)"
    using Cons.IH[of "snd (perform N op req st)"] by (simp add: x)
  also have "\<dots> \<subseteq> set (campuses st) \<union> set (created [x]) \<union> set (created rest)"
    using perform_created[of N op req st] by (auto simp: x)
  finally show ?case using created_Cons[of x rest] by auto
qed

text \<open>
  C8. No operation changes the campus (or the id) of a stored session: after any
  operation on any request, the sessions of the store, taken in order as pairs of id and
  campus, are the same as before, or the same followed by the session just created for the
  caller's campus, or the same without the one session that was deleted. Hence, after any
  run of requests, every stored session has the id and the campus that it had in the
  initial store or that it received when it was created.
\<close>

theorem campus_is_immutable:
  "(campuses (snd (perform N op req st)) = campuses st \<or>
    (\<exists>uuid userCampus. op = CreateSession uuid \<and> session_user req = Some userCampus \<and>
       campuses (snd (perform N op req st)) = campuses st @ [(uuid, userCampus)]) \<or>
    (\<exists>i<length (campuses st). op = DeleteSession \<and>
       campuses (snd (perform N op req st)) = splice1 i (campuses st))) \<and>
   set (campuses (run N ops st)) \<subseteq> set (campuses st) \<union> set (created ops)"
  using perform_campuses[of N op req st] run_campuses[of N ops st] by blast

theorem campus_is_immutable_witness:
  "campuses example_server = [(example_id, ''Toulouse'')] \<and>
   campuses (snd (perform example_builtins AddJury
     (example_request ''Toulouse'' example_id [(''juryName'', JStr ''Ana'')]) example_server)) =
     [(example_id, ''Toulouse'')] \<and>
   set (campuses (run example_builtins
     [(AddJury, example_request ''Toulouse'' example_id [(''juryName'', JStr ''Ana'')])]
     example_server)) \<subseteq> {(example_id, ''Toulouse'')}"
  using campus_is_immutable
      [of example_builtins AddJury
          "example_request ''Toulouse'' example_id [(''juryName'', JStr ''Ana'')]" example_server
          "[(AddJury, example_request ''Toulouse'' example_id [(''juryName'', JStr ''Ana'')])]"]
  by (simp add: campuses_def example_server_simps example_session_simps)

subsection \<open>Aggregation\<close>

lemma assign_append_new: "k \<notin> fst ` set ps \<Longrightarrow> assign k v ps = ps @ [(k, v)]"
  by (induction ps) auto

lemma map_other_keys:
  "k \<notin> fst ` set ps \<Longrightarrow> map (\<lambda>(k', a'). if k' = k then (k', f a') else (k', a')) ps = ps"
  by (induction ps) auto

lemma assign_existing:
  "distinct (map fst ps) \<Longrightarrow> map_of ps k = Some a \<Longrightarrow>
   assign k (f a) ps = map (\<lambda>(k', a'). if k' = k then (k', f a') else (k', a')) ps"
proof (induction ps)
  case Nil
  then show ?case by simp
next
  case (Cons p ps)
  show ?case
  proof (cases "fst p = k")
    case True
    with Cons.prems have "snd p = a" and "k \<notin> fst ` set ps" by auto
    with True show ?thesis by (cases p) (simp add: map_other_keys)
  next
    case False
    with Cons show ?thesis by (cases p) auto
  qed
qed

lemma lookup_own: "map_of aggs k = Some a \<Longrightarrow> lookup aggs k = Own a"
  by (simp add: lookup_def)

lemma lookup_other:
  "k \<notin> fst ` set aggs \<Longrightarrow>
   lookup aggs k = (if k \<in> set object_prototype_keys then Inherited else Absent)"
proof -
  assume "k \<notin> fst ` set aggs"
  then have "map_of aggs k = None" by (simp add: map_of_eq_None_iff)
  then show ?thesis by (simp add: lookup_def)
qed

lemma forEach_step_new:
  "group_key N x \<notin> fst ` set aggs \<Longrightarrow> group_key N x \<notin> set object_prototype_keys \<Longrightarrow>
   forEach_step N aggs x = aggs @ [(group_key N x, addSubmission (newAggregate x) x)]"
  by (simp add: forEach_step_def lookup_other assign_append_new)

lemma forEach_step_inherited:
  "group_key N x \<notin> fst ` set aggs \<Longrightarrow> group_key N x \<in> set object_prototype_keys \<Longrightarrow>
   forEach_step N aggs x = aggs"
  by (simp add: forEach_step_def lookup_other)

lemma forEach_step_old:
  assumes "distinct (map fst aggs)" and "group_key N x \<in> fst ` set aggs"
  shows "forEach_step N aggs x =
     map (\<lambda>(k, a). if k = group_key N x then (k, addSubmission a x) else (k, a)) aggs"
proof -
  from assms(2) obtain a where a: "map_of aggs (group_key N x) = Some a"
    by (metis map_of_eq_None_iff not_Some_eq)
  show ?thesis
    using assign_existing[OF assms(1) a, of "\<lambda>a. addSubmission a x"] lookup_own[OF a]
    by (simp add: forEach_step_def)
qed

lemma foldl_step:
  "distinct (map fst aggs) \<Longrightarrow> fst ` set aggs \<inter> set object_prototype_keys = {} \<Longrightarrow>
   foldl (forEach_step N) aggs xs =
     map (\<lambda>(k, a). (k, foldl addSubmission a (filter (\<lambda>s. group_key N s = k) xs))) aggs
     @ grouped N (filter (\<lambda>s. group_key N s \<notin> fst ` set aggs \<and>
                              group_key N s \<notin> set object_prototype_keys) xs)"
proof (induction xs arbitrary: aggs)
  case Nil
  then show ?case by (simp add: grouped_def)
next
  case (Cons x xs)
  let ?k = "group_key N x"
  let ?Q = "\<lambda>aggs s. group_key N s \<notin> fst ` set aggs \<and> group_key N s \<notin> set object_prototype_keys"
  show ?case
  proof (cases "?k \<in> fst ` set aggs")
    case False
    show ?thesis
    proof (cases "?k \<in> set object_prototype_keys")
      case True
      have m: "map (\<lambda>(k, a). (k, foldl addSubmission a (filter (\<lambda>s. group_key N s = k) (x # xs)))) aggs
             = map (\<lambda>(k, a). (k, foldl addSubmission a (filter (\<lambda>s. group_key N s = k) xs))) aggs"
        using False by (intro map_cong) (auto simp: rev_image_eqI)
      have "foldl (forEach_step N) aggs (x # xs) = foldl (forEach_step N) aggs xs"
        by (simp add: forEach_step_inherited[OF False True])
      also have "\<dots> = map (\<lambda>(k, a). (k, foldl addSubmission a (filter (\<lambda>s. group_key N s = k) xs))) aggs
           @ grouped N (filter (?Q aggs) xs)"
        by (rule Cons.IH[OF Cons.prems])
      also have "\<dots> = map (\<lambda>(k, a). (k, foldl addSubmission a (filter (\<lambda>s. group_key N s = k) (x # xs)))) aggs
           @ grouped N (filter (?Q aggs) (x # xs))"
        using True m by simp
      finally show ?thesis .
    next
      case fresh: False
      let ?a = "addSubmission (newAggregate x) x"
      have d: "distinct (map fst (aggs @ [(?k, ?a)]))"
        using Cons.prems False by simp
      have i: "fst ` set (aggs @ [(?k, ?a)]) \<inter> set object_prototype_keys = {}"
        using Cons.prems fresh by auto
      have f1: "filter (\<lambda>s. group_key N s = ?k) (filter (?Q aggs) xs)
              = filter (\<lambda>s. group_key N s = ?k) xs"
        using False fresh by (simp, intro filter_cong) (auto simp: rev_image_eqI)
      have f2: "filter (\<lambda>s. group_key N s \<noteq> ?k) (filter (?Q aggs) xs)
              = filter (?Q (aggs @ [(?k, ?a)])) xs"
        by (simp, intro filter_cong) (auto simp: rev_image_eqI)
      have m: "map (\<lambda>(k, a). (k, foldl addSubmission a (filter (\<lambda>s. group_key N s = k) (x # xs)))) aggs
             = map (\<lambda>(k, a). (k, foldl addSubmission a (filter (\<lambda>s. group_key N s = k) xs))) aggs"
        using False by (intro map_cong) (auto simp: rev_image_eqI)
      have "foldl (forEach_step N) aggs (x # xs) = foldl (forEach_step N) (aggs @ [(?k, ?a)]) xs"
        by (simp add: forEach_step_new[OF False fresh])
      also have "\<dots> = map (\<lambda>(k, a). (k, foldl addSubmission a (filter (\<lambda>s. group_key N s = k) xs))) (aggs @ [(?k, ?a)])
           @ grouped N (filter (?Q (aggs @ [(?k, ?a)])) xs)"
        by (rule Cons.IH[OF d i])
      also have "\<dots> = map (\<lambda>(k, a). (k, foldl addSubmission a (filter (\<lambda>s. group_key N s = k) (x # xs)))) aggs
           @ grouped N (filter (?Q aggs) (x # xs))"
        using False fresh m f1 f2 by (simp add: grouped_def)
      finally show ?thesis .
    qed
  next
    case True
    let ?aggs' = "map (\<lambda>(k, a). if k = ?k then (k, addSubmission a x) else (k, a)) aggs"
    have keys: "map fst ?aggs' = map fst aggs" by (auto intro: map_cong)
    then have keys': "fst ` set ?aggs' = fst ` set aggs" by (metis list.set_map)
    have d: "distinct (map fst ?aggs')" unfolding keys by (rule Cons.prems)
    have i: "fst ` set ?aggs' \<inter> set object_prototype_keys = {}"
      unfolding keys' by (rule Cons.prems)
    have m: "map (\<lambda>(k, a). (k, foldl addSubmission a (filter (\<lambda>s. group_key N s = k) xs))) ?aggs'
           = map (\<lambda>(k, a). (k, foldl addSubmission a (filter (\<lambda>s. group_key N s = k) (x # xs)))) aggs"
      by (auto intro!: map_cong)
    have "foldl (forEach_step N) aggs (x # xs) = foldl (forEach_step N) ?aggs' xs"
      by (simp add: forEach_step_old[OF Cons.prems(1) True])
    also have "\<dots> = map (\<lambda>(k, a). (k, foldl addSubmission a (filter (\<lambda>s. group_key N s = k) xs))) ?aggs'
         @ grouped N (filter (?Q ?aggs') xs)"
      by (rule Cons.IH[OF d i])
    also have "\<dots> = map (\<lambda>(k, a). (k, foldl addSubmission a (filter (\<lambda>s. group_key N s = k) (x # xs)))) aggs
         @ grouped N (filter (?Q aggs) (x # xs))"
      using True m keys' by simp
    finally show ?thesis .
  qed
qed

lemma aggregates_grouped:
  "aggregates N raw =
     grouped N (filter (\<lambda>s. group_key N s \<notin> set object_prototype_keys) raw)"
  using foldl_step[of "[]" N raw] by (simp add: aggregates_def)

lemma foldl_addSubmission_key:
  "sessionId (foldl addSubmission a g) = sessionId a \<and>
   studentName (foldl addSubmission a g) = studentName a \<and>
   count (foldl addSubmission a g) = count a + length g"
  by (induction g arbitrary: a) (simp_all add: addSubmission_def)

lemma foldl_addSubmission_sums:
  "introductionTeam (foldl addSubmission a g) = foldl (+) (introductionTeam a) (map introductionTeam g) \<and>
   projectInspiration (foldl addSubmission a g) = foldl (+) (projectInspiration a) (map projectInspiration g) \<and>
   technologyArchitecture (foldl addSubmission a g) = foldl (+) (technologyArchitecture a) (map technologyArchitecture g) \<and>
   algorithmsCode (foldl addSubmission a g) = foldl (+) (algorithmsCode a) (map algorithmsCode g) \<and>
   processCollaboration (foldl addSubmission a g) = foldl (+) (processCollaboration a) (map processCollaboration g) \<and>
   challengesFaced (foldl addSubmission a g) = foldl (+) (challengesFaced a) (map challengesFaced g) \<and>
   technicalLearnings (foldl addSubmission a g) = foldl (+) (technicalLearnings a) (map technicalLearnings g) \<and>
   audibles (foldl addSubmission a g) = foldl (+) (audibles a) (map audibles g) \<and>
   clarity (foldl addSubmission a g) = foldl (+) (clarity a) (map clarity g) \<and>
   fewFillerWords (foldl addSubmission a g) = foldl (+) (fewFillerWords a) (map fewFillerWords g) \<and>
   stagePosition (foldl addSubmission a g) = foldl (+) (stagePosition a) (map stagePosition g) \<and>
   confidentPosture (foldl addSubmission a g) = foldl (+) (confidentPosture a) (map confidentPosture g) \<and>
   professionalAttire (foldl addSubmission a g) = foldl (+) (professionalAttire a) (map professionalAttire g) \<and>
   timeManagement (foldl addSubmission a g) = foldl (+) (timeManagement a) (map timeManagement g) \<and>
   energy (foldl addSubmission a g) = foldl (+) (energy a) (map energy g) \<and>
   audienceInteraction (foldl addSubmission a g) = foldl (+) (audienceInteraction a) (map audienceInteraction g) \<and>
   projectFunctionality (foldl addSubmission a g) = foldl (+) (projectFunctionality a) (map projectFunctionality g) \<and>
   questionsAnswers (foldl addSubmission a g) = foldl (+) (questionsAnswers a) (map questionsAnswers g)"
  by (induction g arbitrary: a) (simp_all add: addSubmission_def)

lemma groups_nonempty: "g \<in> set (groups k xs) \<Longrightarrow> g \<noteq> []"
  by (induction k xs rule: groups.induct) auto

lemma averages_of_group:
  "g \<noteq> [] \<Longrightarrow> averages_of (foldl addSubmission (newAggregate (hd g)) g) = average_row g"
  by (simp add: averages_of_def average_row_def foldl_addSubmission_key
      foldl_addSubmission_sums sum_of_def newAggregate_def)

lemma aggregated_groups:
  "aggregated N raw =
     map average_row
       (groups (group_key N) (filter (\<lambda>s. group_key N s \<notin> set object_prototype_keys) raw))"
  by (simp add: aggregated_def aggregates_grouped grouped_def averages_of_group groups_nonempty)

lemma includes'_iff: "includes' N xs v = (\<exists>x\<in>set xs. same_value_zero N x v)"
  by (simp add: includes'_def list_ex_iff)

lemma rawSubmissions_eq:
  "rawSubmissions N st userCampus =
     filter (\<lambda>sub. \<exists>s\<in>set (sessions (dbData st)).
                campus s = userCampus \<and> sessionId sub = JStr (id' s))
       (submissions (dbData st))"
  unfolding rawSubmissions_def
  by (intro filter_cong) (auto simp: includes'_iff campusSessionIds_def campusSessions_def)

lemma groups_filter:
  "g \<in> set (groups k xs) \<Longrightarrow> g = filter (\<lambda>y. k y = k (hd g)) xs"
proof (induction k xs arbitrary: g rule: groups.induct)
  case (1 k)
  then show ?case by simp
next
  case (2 k x xs)
  show ?case
  proof (cases "g = x # filter (\<lambda>y. k y = k x) xs")
    case True
    then show ?thesis by simp
  next
    case False
    with "2.prems" have m: "g \<in> set (groups k (filter (\<lambda>y. k y \<noteq> k x) xs))" by simp
    from "2.IH"[OF m] have g: "g = filter (\<lambda>y. k y = k (hd g)) (filter (\<lambda>y. k y \<noteq> k x) xs)" .
    from groups_nonempty[OF m] have "hd g \<in> set g" by simp
    with g have "hd g \<in> set (filter (\<lambda>y. k y \<noteq> k x) xs)"
      by (metis filter_is_subset subsetD)
    then have ne: "k (hd g) \<noteq> k x" by simp
    have "filter (\<lambda>y. k y = k (hd g)) (filter (\<lambda>y. k y \<noteq> k x) xs)
        = filter (\<lambda>y. k y = k (hd g)) xs"
      using ne by (simp, intro filter_cong) auto
    with g ne show ?thesis by auto
  qed
qed

lemma example_more_keys:
  "sessionId example_second_submission = JStr example_id"
  "studentName example_second_submission = JStr ''Fabien''"
  "sessionId example_boolean_submission = JStr example_id"
  "studentName example_boolean_submission = JBool True"
  "sessionId example_string_submission = JStr example_id"
  "studentName example_string_submission = JStr ''true''"
  by (simp_all add: example_second_submission_def example_boolean_submission_def
      example_string_submission_def example_submission_def)

lemma example_more_simps:
  "sessions (dbData example_mixed) = [example_mixed_session]"
  "submissions (dbData example_mixed) = [example_boolean_submission, example_string_submission]"
  "id' example_mixed_session = example_id"
  "campus example_mixed_session = ''Toulouse''"
  by (simp_all add: example_mixed_def example_mixed_session_def)

lemma example_raw:
  "rawSubmissions example_builtins example_mixed ''Toulouse'' =
     [example_boolean_submission, example_string_submission]"
  by (simp add: rawSubmissions_eq example_more_simps example_more_keys)

lemma example_keys:
  "group_key example_builtins example_submission = example_id @ ''_Fabien''"
  "group_key example_builtins example_second_submission = example_id @ ''_Fabien''"
  "group_key example_builtins example_boolean_submission = example_id @ ''_true''"
  "group_key example_builtins example_string_submission = example_id @ ''_true''"
  by (simp_all add: group_key_def example_more_keys example_submission_key)

lemma example_keys_own:
  "example_id @ ''_Fabien'' \<notin> set object_prototype_keys"
  "example_id @ ''_true'' \<notin> set object_prototype_keys"
  by (simp_all add: example_id_def object_prototype_keys_def)

lemma example_groups:
  "groups (group_key example_builtins) [example_submission, example_second_submission] =
     [[example_submission, example_second_submission]]"
  "groups (group_key example_builtins) [example_boolean_submission, example_string_submission] =
     [[example_boolean_submission, example_string_submission]]"
  "groups pair_of [example_boolean_submission, example_string_submission] =
     [[example_boolean_submission], [example_string_submission]]"
  by (simp_all add: pair_of_def example_submission_key example_more_keys example_keys)

lemma count_addSubmission: "count (addSubmission a sub) = count a + 1"
  by (simp add: addSubmission_def)

lemma example_counts:
  "map (\<lambda>(key, a). (key, count a))
     (aggregates example_builtins [example_submission, example_second_submission]) =
     [(example_id @ ''_Fabien'', 2)]"
  by (simp add: aggregates_grouped grouped_def example_groups example_keys example_keys_own
      count_addSubmission newAggregate_def del: groups.simps)

lemma example_student_submission:
  "newSubmission example_builtins
     (example_request user sid ((''studentName'', JBool True) # example_evaluation))
     = Some example_boolean_submission"
  "newSubmission example_builtins
     (example_request user sid ((''studentName'', JStr ''true'') # example_evaluation))
     = Some example_string_submission"
  unfolding newSubmission_eq ex_criterion
  by (simp_all add: example_request_simps example_evaluation_def example_builtins_simps
      example_parse example_submission_def example_boolean_submission_def
      example_string_submission_def)

lemma example_mixed_steps:
  "snd (post_sessions example_builtins example_id
          (example_request ''Toulouse'' [] [(''name'', JStr ''C#22'')]) example_empty) =
     \<lparr>dbData = \<lparr>sessions = [\<lparr>id' = example_id, name = JStr ''C#22'', campus = ''Toulouse'',
                               juries = [], students = []\<rparr>], submissions = []\<rparr>,
      db_json = \<lparr>sessions = [\<lparr>id' = example_id, name = JStr ''C#22'', campus = ''Toulouse'',
                                juries = [], students = []\<rparr>], submissions = []\<rparr>\<rparr>"
  "snd (post_juries example_builtins
          (example_request ''Toulouse'' example_id [(''juryName'', JStr ''Hugo'')])
          \<lparr>dbData = \<lparr>sessions = [\<lparr>id' = example_id, name = JStr ''C#22'', campus = ''Toulouse'',
                               juries = [], students = []\<rparr>], submissions = []\<rparr>,
           db_json = \<lparr>sessions = [\<lparr>id' = example_id, name = JStr ''C#22'', campus = ''Toulouse'',
                                juries = [], students = []\<rparr>], submissions = []\<rparr>\<rparr>) =
     \<lparr>dbData = \<lparr>sessions = [\<lparr>id' = example_id, name = JStr ''C#22'', campus = ''Toulouse'',
                               juries = [JStr ''Hugo''], students = []\<rparr>], submissions = []\<rparr>,
      db_json = \<lparr>sessions = [\<lparr>id' = example_id, name = JStr ''C#22'', campus = ''Toulouse'',
                                juries = [JStr ''Hugo''], students = []\<rparr>], submissions = []\<rparr>\<rparr>"
  "snd (post_students example_builtins
          (example_request ''Toulouse'' example_id [(''studentName'', JBool True)])
          \<lparr>dbData = \<lparr>sessions = [\<lparr>id' = example_id, name = JStr ''C#22'', campus = ''Toulouse'',
                               juries = [JStr ''Hugo''], students = []\<rparr>], submissions = []\<rparr>,
           db_json = \<lparr>sessions = [\<lparr>id' = example_id, name = JStr ''C#22'', campus = ''Toulouse'',
                                juries = [JStr ''Hugo''], students = []\<rparr>], submissions = []\<rparr>\<rparr>) =
     \<lparr>dbData = \<lparr>sessions = [\<lparr>id' = example_id, name = JStr ''C#22'', campus = ''Toulouse'',
                               juries = [JStr ''Hugo''], students = [JBool True]\<rparr>],
                 submissions = []\<rparr>,
      db_json = \<lparr>sessions = [\<lparr>id' = example_id, name = JStr ''C#22'', campus = ''Toulouse'',
                                juries = [JStr ''Hugo''], students = [JBool True]\<rparr>],
                  submissions = []\<rparr>\<rparr>"
  "snd (post_students example_builtins
          (example_request ''Toulouse'' example_id [(''studentName'', JStr ''true'')])
          \<lparr>dbData = \<lparr>sessions = [\<lparr>id' = example_id, name = JStr ''C#22'', campus = ''Toulouse'',
                               juries = [JStr ''Hugo''], students = [JBool True]\<rparr>],
                 submissions = []\<rparr>,
           db_json = \<lparr>sessions = [\<lparr>id' = example_id, name = JStr ''C#22'', campus = ''Toulouse'',
                                juries = [JStr ''Hugo''], students = [JBool True]\<rparr>],
                  submissions = []\<rparr>\<rparr>) =
     \<lparr>dbData = \<lparr>sessions = [example_mixed_session], submissions = []\<rparr>,
      db_json = \<lparr>sessions = [example_mixed_session], submissions = []\<rparr>\<rparr>"
  by (simp_all add: post_sessions_def post_juries_def post_students_def change_session_def
      isAuthenticated_def saveDatabase_def example_request_simps example_empty_def
      example_mixed_session_def Let_def)


lemma example_mixed_submits:
  "snd (post_submitEvaluation example_builtins
          (example_request ''Toulouse'' [] ((''studentName'', JBool True) # example_evaluation))
          \<lparr>dbData = \<lparr>sessions = [example_mixed_session], submissions = []\<rparr>,
           db_json = \<lparr>sessions = [example_mixed_session], submissions = []\<rparr>\<rparr>) =
     \<lparr>dbData = \<lparr>sessions = [example_mixed_session],
                 submissions = [example_boolean_submission]\<rparr>,
      db_json = \<lparr>sessions = [example_mixed_session],
                  submissions = [example_boolean_submission]\<rparr>\<rparr>"
  "snd (post_submitEvaluation example_builtins
          (example_request ''Toulouse'' [] ((''studentName'', JStr ''true'') # example_evaluation))
          \<lparr>dbData = \<lparr>sessions = [example_mixed_session],
                      submissions = [example_boolean_submission]\<rparr>,
           db_json = \<lparr>sessions = [example_mixed_session],
                       submissions = [example_boolean_submission]\<rparr>\<rparr>) =
     example_mixed"
proof -
  let ?b = "example_request ''Toulouse'' [] ((''studentName'', JBool True) # example_evaluation)"
  let ?s = "example_request ''Toulouse'' [] ((''studentName'', JStr ''true'') # example_evaluation)"
  let ?st = "\<lparr>dbData = \<lparr>sessions = [example_mixed_session], submissions = []\<rparr>,
           db_json = \<lparr>sessions = [example_mixed_session], submissions = []\<rparr>\<rparr>"
  let ?st' = "\<lparr>dbData = \<lparr>sessions = [example_mixed_session],
                      submissions = [example_boolean_submission]\<rparr>,
           db_json = \<lparr>sessions = [example_mixed_session],
                       submissions = [example_boolean_submission]\<rparr>\<rparr>"
  have u: "session_user ?b = Some ''Toulouse''" "session_user ?s = Some ''Toulouse''"
    by (simp_all add: example_request_simps)
  have m: "campus example_mixed_session = ''Toulouse''"
      "juries example_mixed_session = [JStr ''Hugo'']"
      "students example_mixed_session = [JBool True, JStr ''true'']"
    by (simp_all add: example_mixed_session_def)
  have f: "find (\<lambda>s. JStr (id' s) = body ?b ''sessionId'') (sessions (dbData ?st))
             = Some example_mixed_session"
      "find (\<lambda>s. JStr (id' s) = body ?s ''sessionId'') (sessions (dbData ?st'))
             = Some example_mixed_session"
    by (simp_all add: example_object_body example_more_simps)
  have i: "includes' example_builtins [JStr ''Hugo''] (body ?b ''juryName'')"
      "includes' example_builtins [JBool True, JStr ''true''] (body ?b ''studentName'')"
      "includes' example_builtins [JStr ''Hugo''] (body ?s ''juryName'')"
      "includes' example_builtins [JBool True, JStr ''true''] (body ?s ''studentName'')"
    by (simp_all add: example_object_body includes'_def)
  show "snd (post_submitEvaluation example_builtins ?b ?st) = ?st'"
    using i(1,2) by (simp add: submit_found[OF u(1) f(1)] m example_student_submission)
  show "snd (post_submitEvaluation example_builtins ?s ?st') = example_mixed"
    using i(3,4)
    by (simp add: submit_found[OF u(2) f(2)] m example_student_submission example_mixed_def)
qed

lemma example_mixed_is_reached:
  "run example_builtins example_mixed_requests example_empty = example_mixed"
  by (simp add: example_mixed_requests_def example_mixed_steps example_mixed_submits)

subsection \<open>Results with averages\<close>

text \<open>
  C1. The claim asks for one row for each distinct pair of \<open>sessionId\<close> and \<open>studentName\<close>
  among the raw submissions, and the comment of the loop says the same (\<open>Aggregate results
  per sessionId/studentName\<close>). The loop, however, names the accumulator of a submission by
  the string \<^verbatim>\<open>`${sub.sessionId}_${sub.studentName}`\<close>, and two distinct pairs can have the
  same string. After the requests that create a session, add the students \<open>true\<close> and
  \<open>"true"\<close> to it and submit one evaluation of each, the raw submissions have two distinct
  pairs, which make two groups, and the route answers with a single row, computed from
  both submissions.
\<close>

theorem boolean_and_string_names_share_a_row:
  "run example_builtins example_mixed_requests example_empty = example_mixed \<and>
   session_user (example_request ''Toulouse'' [] []) = Some ''Toulouse'' \<and>
   rawSubmissions example_builtins example_mixed ''Toulouse'' =
     [example_boolean_submission, example_string_submission] \<and>
   pair_of example_boolean_submission \<noteq> pair_of example_string_submission \<and>
   groups pair_of (rawSubmissions example_builtins example_mixed ''Toulouse'') =
     [[example_boolean_submission], [example_string_submission]] \<and>
   get_resultsWithAverages example_builtins (example_request ''Toulouse'' [] []) example_mixed =
     ((200, Results [example_boolean_submission, example_string_submission]
              [average_row [example_boolean_submission, example_string_submission]]
              [example_mixed_session]), example_mixed)"
proof -
  have g: "get_resultsWithAverages example_builtins (example_request ''Toulouse'' [] [])
       example_mixed =
     ((200, Results [example_boolean_submission, example_string_submission]
              [average_row [example_boolean_submission, example_string_submission]]
              [example_mixed_session]), example_mixed)"
    by (simp add: get_resultsWithAverages_def isAuthenticated_def example_request_simps
        example_raw example_more_keys aggregated_groups example_keys example_keys_own
        example_groups campusSessions_def example_more_simps del: groups.simps)
  have p: "pair_of example_boolean_submission \<noteq> pair_of example_string_submission"
    by (simp add: pair_of_def example_more_keys)
  from g p example_mixed_is_reached show ?thesis
    by (simp add: example_request_simps example_raw example_groups del: groups.simps)
qed

text \<open>
  C9. Every accumulator of \<open>aggregates\<close> has a count of at least 1 when the sums are divided:
  its count is the number of raw submissions that have its key, and an accumulator exists
  only for the key of some submission.
\<close>

theorem groups_never_empty:
  "\<forall>(key, a)\<in>set (aggregates N raw).
     1 \<le> count a \<and> count a = length (filter (\<lambda>sub. group_key N sub = key) raw)"
proof (clarify)
  fix key a assume "(key, a) \<in> set (aggregates N raw)"
  let ?own = "filter (\<lambda>s. group_key N s \<notin> set object_prototype_keys) raw"
  from \<open>(key, a) \<in> set (aggregates N raw)\<close>
  obtain g where g: "g \<in> set (groups (group_key N) ?own)"
      and k: "key = group_key N (hd g)"
      and a: "a = foldl addSubmission (newAggregate (hd g)) g"
    by (auto simp: aggregates_grouped grouped_def)
  from groups_nonempty[OF g] have ne: "1 \<le> length g" by (cases g) auto
  have c: "count a = length g"
    by (simp add: a foldl_addSubmission_key newAggregate_def)
  from groups_filter[OF g] have f: "g = filter (\<lambda>sub. group_key N sub = key) ?own"
    by (simp add: k)
  from groups_nonempty[OF g] have "hd g \<in> set g" by simp
  with f have "hd g \<in> set ?own" by (metis filter_is_subset subsetD)
  then have own: "key \<notin> set object_prototype_keys" by (simp add: k)
  have "filter (\<lambda>sub. group_key N sub = key) ?own = filter (\<lambda>sub. group_key N sub = key) raw"
    using own by (simp, intro filter_cong) auto
  with f have "length g = length (filter (\<lambda>sub. group_key N sub = key) raw)" by simp
  with ne c show "1 \<le> count a \<and> count a = length (filter (\<lambda>sub. group_key N sub = key) raw)"
    by simp
qed

theorem groups_never_empty_witness:
  "aggregates example_builtins [example_submission, example_second_submission] \<noteq> [] \<and>
   map (\<lambda>(key, a). (key, count a))
     (aggregates example_builtins [example_submission, example_second_submission]) =
     [(example_id @ ''_Fabien'', 2)]"
proof -
  have ne: "aggregates example_builtins [example_submission, example_second_submission] \<noteq> []"
    by (simp add: aggregates_grouped grouped_def example_groups example_keys example_keys_own
        del: groups.simps)
  from groups_never_empty [of example_builtins "[example_submission, example_second_submission]"]
    ne example_counts
  show ?thesis by blast
qed

end
